theory Spec2Isabelle
  imports Main
begin

section \<open>Python values\<close>

text \<open>
  A Python \<open>str\<close> is a sequence of Unicode code points. The plugin compares against
  the full-width comma (U+FF0C) and the date formats contain U+5E74, U+6708 and U+65E5,
  none of which fits an 8-bit character, so a string is a list of code points.
  \<open>u\<close> embeds an ASCII literal.
\<close>

type_synonym codepoint = nat
type_synonym ustr = "codepoint list"

abbreviation u :: "string \<Rightarrow> ustr" where
  "u s \<equiv> map of_char s"

text \<open>
  What \<open>json.loads\<close> returns: \<open>None\<close>, a bool, an int, a float, a str, a list or a
  dict. A float is kept as mantissa and binary exponent (or infinity, or NaN, which
  \<open>json.loads\<close> accepts), since only its truth value is ever inspected. A dict is an
  association list in insertion order; \<open>map_of\<close> reads it.
\<close>

datatype pyfloat = Finite int int | Infinity bool | NaN

datatype json =
    JNull
  | JBool bool
  | JInt int
  | JFloat pyfloat
  | JStr ustr
  | JList "json list"
  | JDict "(ustr \<times> json) list"

text \<open>
  The exceptions that can travel through the plugin. \<open>HTTPError\<close> (a non-2xx status)
  is a subclass of \<open>URLError\<close>; \<open>JSONDecodeError\<close>, \<open>UnicodeDecodeError\<close> and
  \<open>UnicodeEncodeError\<close> are subclasses of \<open>ValueError\<close>.
\<close>

datatype py_exception =
    URLError
  | HTTPError nat
  | JSONDecodeError
  | UnicodeDecodeError
  | UnicodeEncodeError
  | ValueError
  | KeyError json
  | IndexError
  | TypeError
  | AttributeError
  | RecursionError
  | OSError

fun is_URLError :: "py_exception \<Rightarrow> bool" where
  "is_URLError URLError = True"
| "is_URLError (HTTPError _) = True"
| "is_URLError _ = False"

fun is_ValueError :: "py_exception \<Rightarrow> bool" where
  "is_ValueError ValueError = True"
| "is_ValueError JSONDecodeError = True"
| "is_ValueError UnicodeDecodeError = True"
| "is_ValueError UnicodeEncodeError = True"
| "is_ValueError _ = False"

fun is_KeyError :: "py_exception \<Rightarrow> bool" where
  "is_KeyError (KeyError _) = True"
| "is_KeyError _ = False"

text \<open>Python's truth value of an object (\<open>if not x\<close>).\<close>

fun truthy :: "json \<Rightarrow> bool" where
  "truthy JNull = False"
| "truthy (JBool b) = b"
| "truthy (JInt n) = (n \<noteq> 0)"
| "truthy (JFloat (Finite m e)) = (m \<noteq> 0)"
| "truthy (JFloat _) = True"
| "truthy (JStr s) = (s \<noteq> [])"
| "truthy (JList xs) = (xs \<noteq> [])"
| "truthy (JDict kvs) = (kvs \<noteq> [])"

text \<open>\<open>isinstance(x, dict)\<close> and \<open>isinstance(x, str)\<close>.\<close>

fun is_dict :: "json \<Rightarrow> bool" where
  "is_dict (JDict _) = True"
| "is_dict _ = False"

text \<open>\<open>d.get(k, default)\<close> on a dict.\<close>

definition dict_get :: "(ustr \<times> json) list \<Rightarrow> ustr \<Rightarrow> json \<Rightarrow> json" where
  "dict_get kvs k dflt = (case map_of kvs k of Some v \<Rightarrow> v | None \<Rightarrow> dflt)"

text \<open>
  \<open>x.get(k, default)\<close> on any object: only a dict has the method, every other JSON
  value raises \<open>AttributeError\<close>.
\<close>

fun py_get :: "json \<Rightarrow> ustr \<Rightarrow> json \<Rightarrow> py_exception + json" where
  "py_get (JDict kvs) k dflt = Inr (dict_get kvs k dflt)"
| "py_get _ k dflt = Inl AttributeError"

text \<open>
  \<open>x[k]\<close> with a string key: a dict looks the key up (\<open>KeyError\<close> when missing),
  a list or a str wants an integer index, and the rest is not subscriptable.
\<close>

fun subscript :: "json \<Rightarrow> ustr \<Rightarrow> py_exception + json" where
  "subscript (JDict kvs) k =
     (case map_of kvs k of Some v \<Rightarrow> Inr v | None \<Rightarrow> Inl (KeyError (JStr k)))"
| "subscript _ k = Inl TypeError"

text \<open>\<open>len(x)\<close>: defined on str, list and dict.\<close>

fun py_len :: "json \<Rightarrow> py_exception + nat" where
  "py_len (JStr s) = Inr (length s)"
| "py_len (JList xs) = Inr (length xs)"
| "py_len (JDict kvs) = Inr (length kvs)"
| "py_len _ = Inl TypeError"

text \<open>
  \<open>for item in x\<close>: a list yields its elements, a dict its keys, a str its
  one-character substrings; nothing else is iterable.
\<close>

fun py_iter :: "json \<Rightarrow> py_exception + json list" where
  "py_iter (JList xs) = Inr xs"
| "py_iter (JDict kvs) = Inr (map (\<lambda>kv. JStr (fst kv)) kvs)"
| "py_iter (JStr s) = Inr (map (\<lambda>c. JStr [c]) s)"
| "py_iter _ = Inl TypeError"

subsection \<open>String operations\<close>

definition comma :: codepoint where "comma = 44"
definition space :: codepoint where "space = 32"
definition fullwidth_comma :: codepoint where "fullwidth_comma = 65292"

text \<open>\<open>s.split(d)\<close> for a one-character separator: every occurrence cuts, empty parts are kept.\<close>

fun split_on :: "codepoint \<Rightarrow> ustr \<Rightarrow> ustr list" where
  "split_on d [] = [[]]"
| "split_on d (c # cs) =
     (if c = d then [] # split_on d cs
      else (case split_on d cs of [] \<Rightarrow> [[c]] | p # ps \<Rightarrow> (c # p) # ps))"

text \<open>
  The code points for which \<open>str.isspace\<close> holds; \<open>str.strip()\<close> removes them from
  both ends.
\<close>

definition is_space :: "codepoint \<Rightarrow> bool" where
  "is_space c \<longleftrightarrow>
     (9 \<le> c \<and> c \<le> 13) \<or> (28 \<le> c \<and> c \<le> 32) \<or> c = 133 \<or> c = 160 \<or> c = 5760 \<or>
     (8192 \<le> c \<and> c \<le> 8202) \<or> c = 8232 \<or> c = 8233 \<or> c = 8239 \<or> c = 8287 \<or> c = 12288"

definition strip :: "ustr \<Rightarrow> ustr" where
  "strip s = rev (dropWhile is_space (rev (dropWhile is_space s)))"

text \<open>\<open>x.strip()\<close> on any object: only a str has the method.\<close>

fun py_strip :: "json \<Rightarrow> py_exception + ustr" where
  "py_strip (JStr s) = Inr (strip s)"
| "py_strip _ = Inl AttributeError"

subsection \<open>\<open>urllib.parse.quote\<close>\<close>

text \<open>
  \<open>quote(s)\<close> with the default \<open>safe='/'\<close>: the string is encoded as UTF-8 (strictly,
  so a surrogate raises \<open>UnicodeEncodeError\<close>), and every byte that is not an ASCII
  letter, a digit or one of \<open>_.-~/\<close> becomes \<open>%XX\<close> in upper-case hexadecimal.
\<close>

definition utf8 :: "codepoint \<Rightarrow> nat list option" where
  "utf8 c =
     (if c < 128 then Some [c]
      else if c < 2048 then Some [192 + c div 64, 128 + c mod 64]
      else if 55296 \<le> c \<and> c < 57344 then None
      else if c < 65536 then Some [224 + c div 4096, 128 + (c div 64) mod 64, 128 + c mod 64]
      else if c < 1114112 then
        Some [240 + c div 262144, 128 + (c div 4096) mod 64, 128 + (c div 64) mod 64,
              128 + c mod 64]
      else None)"

definition always_safe :: "nat \<Rightarrow> bool" where
  "always_safe b \<longleftrightarrow>
     (65 \<le> b \<and> b \<le> 90) \<or> (97 \<le> b \<and> b \<le> 122) \<or> (48 \<le> b \<and> b \<le> 57) \<or>
     b = 95 \<or> b = 46 \<or> b = 45 \<or> b = 126 \<or> b = 47"

definition hex_digit :: "nat \<Rightarrow> codepoint" where
  "hex_digit n = (if n < 10 then 48 + n else 55 + n)"

definition quote_byte :: "nat \<Rightarrow> ustr" where
  "quote_byte b = (if always_safe b then [b] else [37, hex_digit (b div 16), hex_digit (b mod 16)])"

fun quote :: "ustr \<Rightarrow> py_exception + ustr" where
  "quote [] = Inr []"
| "quote (c # cs) =
     (case utf8 c of
        None \<Rightarrow> Inl UnicodeEncodeError
      | Some bytes \<Rightarrow>
          (case quote cs of
             Inl e \<Rightarrow> Inl e
           | Inr rest \<Rightarrow> Inr (concat (map quote_byte bytes) @ rest)))"

text \<open>
  The characters of a percent-encoded string: the safe ones and the percent sign (the
  hexadecimal digits are among the safe ones).
\<close>

definition url_char :: "codepoint \<Rightarrow> bool" where
  "url_char c \<longleftrightarrow> always_safe c \<or> c = 37"

section \<open>The plugin's surroundings\<close>

text \<open>The options of the plugin (\<open>self.prefs\<close>), with the types their declarations give.\<close>

record prefs =
  api_key :: ustr
  api_base_url :: ustr
  request_url :: ustr
  max_items :: int
  scroll_to_bottom :: bool
  actions :: ustr
  cmd :: ustr

text \<open>A POST request: the URL and the object handed to \<open>json.dumps\<close> for the body.\<close>

record request =
  req_url :: ustr
  req_body :: json

text \<open>The date a successful \<open>datetime.strptime\<close> returns (the time of day is midnight).\<close>

record datetime =
  year :: nat
  month :: nat
  day :: nat

text \<open>
  What the plugin does not contain is a parameter of the model:
  \<^item> \<open>make_request\<close>: the constructor \<open>Request(url, data=..., headers=..., method='POST')\<close>;
    it returns \<open>None\<close> when the object is built and the exception otherwise (the library
    raises \<open>ValueError\<close> for a URL without a scheme);
  \<^item> \<open>http_post\<close>: \<open>urlopen\<close> on the request, reading the response and decoding it as
    UTF-8; it returns the body text or the exception raised on the way;
  \<^item> \<open>json_loads\<close>: \<open>json.loads\<close> on a str;
  \<^item> \<open>str_format\<close>: \<open>template.format(**params)\<close>, the keyword arguments as an
    association list;
  \<^item> \<open>strptime\<close>: \<open>datetime.strptime(text, fmt)\<close>.
\<close>

record pyenv =
  make_request :: "request \<Rightarrow> py_exception option"
  http_post :: "request \<Rightarrow> py_exception + ustr"
  json_loads :: "ustr \<Rightarrow> py_exception + json"
  str_format :: "ustr \<Rightarrow> (ustr \<times> ustr) list \<Rightarrow> py_exception + ustr"
  strptime :: "ustr \<Rightarrow> ustr \<Rightarrow> py_exception + datetime"

text \<open>
  The record \<open>MetaInformation(title, authors)\<close> builds and the plugin fills in. The class
  belongs to the host application; it is taken as a plain container of the values it is
  given, \<open>set_identifier\<close> storing the pair.
\<close>

record metainfo =
  mi_title :: json
  mi_authors :: json
  mi_isbn :: json
  mi_publisher :: json
  mi_pubdate :: "datetime option"
  mi_comments :: json
  mi_tags :: json
  mi_identifiers :: "(ustr \<times> json) list"

text \<open>One constructor per logging call of the source, with the values its message shows.\<close>

datatype level = INFO | WARN | ERROR

datatype log_msg =
    MsgSessionStart
  | MsgSessionCreated json
  | MsgSessionError py_exception
  | MsgRetrieveStart ustr
  | MsgActionsParseFailed
  | MsgRawResponse json
  | MsgRetrieved nat
  | MsgRetrieveHttpError py_exception
  | MsgIdentifyStart
  | MsgSessionFailed
  | MsgInputs ustr "ustr option" "ustr list option"
  | MsgFormattedUrl ustr
  | MsgUrlFormatError py_exception
  | MsgNoQuery
  | MsgUsingQuery ustr
  | MsgRetrieveFailed
  | MsgInvalidItem json
  | MsgProcessingItem json
  | MsgRawPubdate ustr
  | MsgPubdateParsed datetime ustr
  | MsgPubdateUnparseable ustr
  | MsgPubdateError py_exception
  | MsgNoPubdate
  | MsgQueued json
  | MsgIdentifyDone
  | MsgCoverNotImplemented

text \<open>
  Everything the plugin can change: the lines written to \<open>log\<close>, the records put on
  \<open>result_queue\<close>, and the network calls made so far, each in order.
\<close>

record run_state =
  log_lines :: "(level \<times> log_msg) list"
  result_queue :: "metainfo list"
  requests :: "request list"

definition log_info :: "log_msg \<Rightarrow> run_state \<Rightarrow> run_state" where
  "log_info m st = st\<lparr>log_lines := log_lines st @ [(INFO, m)]\<rparr>"

definition log_warn :: "log_msg \<Rightarrow> run_state \<Rightarrow> run_state" where
  "log_warn m st = st\<lparr>log_lines := log_lines st @ [(WARN, m)]\<rparr>"

definition log_error :: "log_msg \<Rightarrow> run_state \<Rightarrow> run_state" where
  "log_error m st = st\<lparr>log_lines := log_lines st @ [(ERROR, m)]\<rparr>"

definition put :: "metainfo \<Rightarrow> run_state \<Rightarrow> run_state" where
  "put mi st = st\<lparr>result_queue := result_queue st @ [mi]\<rparr>"

definition sent :: "request \<Rightarrow> run_state \<Rightarrow> run_state" where
  "sent r st = st\<lparr>requests := requests st @ [r]\<rparr>"

text \<open>A call returns the state it leaves and either the exception it raised or its value.\<close>

type_synonym 'a outcome = "run_state \<times> (py_exception + 'a)"

text \<open>
  \<open>urlopen(req)\<close> and the read of the response: the call is entered in \<open>requests\<close> at
  the moment it is made, whatever it then returns.
\<close>

definition urlopen :: "pyenv \<Rightarrow> request \<Rightarrow> run_state \<Rightarrow> ustr outcome" where
  "urlopen env req st = (sent req st, http_post env req)"

section \<open>The plugin\<close>

subsection \<open>\<open>create_session\<close> (lines 44-57)\<close>

definition session_request :: "prefs \<Rightarrow> request" where
  "session_request p =
     \<lparr>req_url = api_base_url p @ u ''/create_session'',
      req_body = JDict [(u ''api_key'', JStr (api_key p))]\<rparr>"

text \<open>
  The body of the \<open>try\<close> (lines 51-54): the call, \<open>json.loads\<close> on what it returned, and
  \<open>session_data['session_id']\<close>, read for the log line and again for the return.
\<close>

definition session_try :: "pyenv \<Rightarrow> request \<Rightarrow> run_state \<Rightarrow> json outcome" where
  "session_try env req st =
     (case urlopen env req st of
        (st1, Inl e) \<Rightarrow> (st1, Inl e)
      | (st1, Inr body) \<Rightarrow>
          (case json_loads env body of
             Inl e \<Rightarrow> (st1, Inl e)
           | Inr session_data \<Rightarrow>
               (case subscript session_data (u ''session_id'') of
                  Inl e \<Rightarrow> (st1, Inl e)
                | Inr session_id \<Rightarrow>
                    (log_info (MsgSessionCreated session_id) st1, Inr session_id))))"

text \<open>
  \<open>Request(...)\<close> on line 49 stands before the \<open>try\<close>: when it raises, no call is made
  and the exception leaves the function. Inside the \<open>try\<close>, \<open>except URLError\<close> logs and
  returns \<open>None\<close>; any other exception leaves the function.
\<close>

definition create_session :: "pyenv \<Rightarrow> prefs \<Rightarrow> run_state \<Rightarrow> json outcome" where
  "create_session env p st =
     (let st1 = log_info MsgSessionStart st;
          req = session_request p
      in case make_request env req of
           Some e \<Rightarrow> (st1, Inl e)
         | None \<Rightarrow>
             (case session_try env req st1 of
                (st', Inl e) \<Rightarrow>
                  if is_URLError e then (log_error (MsgSessionError e) st', Inr JNull)
                  else (st', Inl e)
              | (st', Inr session_id) \<Rightarrow> (st', Inr session_id)))"

subsection \<open>\<open>retrieve_data\<close> (lines 59-92)\<close>

text \<open>The request body of lines 70-79; \<open>cmd\<close> is the option if it is non-empty, else the query.\<close>

definition retrieve_request ::
  "prefs \<Rightarrow> json \<Rightarrow> ustr \<Rightarrow> ustr list \<Rightarrow> ustr \<Rightarrow> json \<Rightarrow> request" where
  "retrieve_request p session_id query field_names url acts =
     \<lparr>req_url = api_base_url p @ u ''/retrieve'',
      req_body = JDict
        [(u ''cmd'', JStr (if cmd p \<noteq> [] then cmd p else query)),
         (u ''url'', JStr url),
         (u ''fields'', JList (map JStr field_names)),
         (u ''session_id'', session_id),
         (u ''scroll_to_bottom'', JBool (scroll_to_bottom p)),
         (u ''max_items'', JInt (max_items p)),
         (u ''local'', JBool True),
         (u ''actions'', acts)]\<rparr>"

text \<open>
  Lines 64-68: \<open>json.loads\<close> on the option; \<open>except json.JSONDecodeError\<close> warns and
  puts the empty list in its place.
\<close>

definition parse_actions :: "pyenv \<Rightarrow> prefs \<Rightarrow> run_state \<Rightarrow> json outcome" where
  "parse_actions env p st =
     (case json_loads env (actions p) of
        Inr acts \<Rightarrow> (st, Inr acts)
      | Inl e \<Rightarrow>
          if e = JSONDecodeError then (log_warn MsgActionsParseFailed st, Inr (JList []))
          else (st, Inl e))"

text \<open>The body of the \<open>try\<close> of lines 83-89.\<close>

definition retrieve_try :: "pyenv \<Rightarrow> request \<Rightarrow> run_state \<Rightarrow> json outcome" where
  "retrieve_try env req st =
     (case urlopen env req st of
        (st0, Inl e) \<Rightarrow> (st0, Inl e)
      | (st0, Inr body) \<Rightarrow>
          (case json_loads env body of
             Inl e \<Rightarrow> (st0, Inl e)
           | Inr response \<Rightarrow>
               (let st1 = log_info (MsgRawResponse response) st0 in
                case py_get response (u ''result'') (JList []) of
                  Inl e \<Rightarrow> (st1, Inl e)
                | Inr result \<Rightarrow>
                    (case py_len result of
                       Inl e \<Rightarrow> (st1, Inl e)
                     | Inr n \<Rightarrow> (log_info (MsgRetrieved n) st1, Inr result)))))"

text \<open>
  Lines 82-92. \<open>Request(...)\<close> on line 82 stands before the \<open>try\<close>: when it raises, no
  call is made. Inside the \<open>try\<close>, \<open>except URLError\<close> logs and returns \<open>None\<close>.
\<close>

definition post_retrieve :: "pyenv \<Rightarrow> request \<Rightarrow> run_state \<Rightarrow> json outcome" where
  "post_retrieve env req st =
     (case make_request env req of
        Some e \<Rightarrow> (st, Inl e)
      | None \<Rightarrow>
          (case retrieve_try env req st of
             (st', Inl e) \<Rightarrow>
               if is_URLError e then (log_error (MsgRetrieveHttpError e) st', Inr JNull)
               else (st', Inl e)
           | (st', Inr result) \<Rightarrow> (st', Inr result)))"

definition retrieve_data ::
  "pyenv \<Rightarrow> prefs \<Rightarrow> json \<Rightarrow> ustr \<Rightarrow> ustr list \<Rightarrow> ustr \<Rightarrow> run_state \<Rightarrow> json outcome" where
  "retrieve_data env p session_id query field_names url st =
     (case parse_actions env p (log_info (MsgRetrieveStart url) st) of
        (st', Inl e) \<Rightarrow> (st', Inl e)
      | (st', Inr acts) \<Rightarrow>
          post_retrieve env (retrieve_request p session_id query field_names url acts) st')"

subsection \<open>Normalising one record (lines 139-188)\<close>

text \<open>
  Lines 141-145 and 177-181, the same for authors and tags: a str that contains a
  comma, a space or a full-width comma is split at its commas; any other str becomes a
  one-element list; a value that is not a str is kept.
\<close>

fun split_field :: "json \<Rightarrow> json" where
  "split_field (JStr s) =
     (if comma \<in> set s \<or> space \<in> set s \<or> fullwidth_comma \<in> set s
      then JList (map JStr (split_on comma s))
      else JList [JStr s])"
| "split_field v = v"

text \<open>The tuple of line 157.\<close>

definition pubdate_formats :: "ustr list" where
  "pubdate_formats =
     [u ''%Y-%m-%d'',
      u ''%Y'' @ [24180] @ u ''%m'' @ [26376] @ u ''%d'' @ [26085],
      u ''%Y'' @ [24180] @ u ''%m'' @ [26376],
      u ''%Y/%m/%d'',
      u ''%Y.%m.%d'']"

text \<open>
  The \<open>for\<close> ... \<open>else\<close> of lines 157-167: the first format \<open>strptime\<close> accepts gives
  the date and ends the loop; a \<open>ValueError\<close> moves on to the next format; when the
  formats run out the \<open>else\<close> branch warns. Any other exception leaves the loop.
\<close>

fun try_formats ::
  "pyenv \<Rightarrow> ustr \<Rightarrow> ustr list \<Rightarrow> run_state \<Rightarrow> (datetime option) outcome" where
  "try_formats env s [] st = (log_warn (MsgPubdateUnparseable s) st, Inr None)"
| "try_formats env s (fmt # fmts) st =
     (case strptime env s fmt of
        Inr d \<Rightarrow> (log_info (MsgPubdateParsed d fmt) st, Inr (Some d))
      | Inl e \<Rightarrow> if is_ValueError e then try_formats env s fmts st else (st, Inl e))"

text \<open>
  Lines 154-173: an empty string gives no date; otherwise the loop runs inside
  \<open>except Exception\<close>, which logs and gives no date.
\<close>

definition parse_pubdate :: "pyenv \<Rightarrow> ustr \<Rightarrow> run_state \<Rightarrow> run_state \<times> datetime option" where
  "parse_pubdate env pubdate_str st =
     (if pubdate_str \<noteq> [] then
        (case try_formats env pubdate_str pubdate_formats st of
           (st', Inl e) \<Rightarrow> (log_error (MsgPubdateError e) st', None)
         | (st', Inr d) \<Rightarrow> (st', d))
      else (log_info MsgNoPubdate st, None))"

text \<open>
  Lines 139-188 for an item that is a dict. \<open>item.get('pubdate', '').strip()\<close> stands
  outside every \<open>try\<close>.
\<close>

definition normalize_item :: "pyenv \<Rightarrow> (ustr \<times> json) list \<Rightarrow> run_state \<Rightarrow> unit outcome" where
  "normalize_item env item st =
     (let st1 = log_info (MsgProcessingItem (JDict item)) st;
          authors = split_field (dict_get item (u ''authors'') (JList []));
          title = dict_get item (u ''title'') (JStr []);
          isbn = dict_get item (u ''isbn'') (JStr []);
          publisher = dict_get item (u ''publisher'') (JStr [])
      in case py_strip (dict_get item (u ''pubdate'') (JStr [])) of
           Inl e \<Rightarrow> (st1, Inl e)
         | Inr pubdate_str \<Rightarrow>
             (case parse_pubdate env pubdate_str (log_info (MsgRawPubdate pubdate_str) st1) of
                (st2, pubdate) \<Rightarrow>
                  (let mi = \<lparr>mi_title = title, mi_authors = authors, mi_isbn = isbn,
                             mi_publisher = publisher, mi_pubdate = pubdate,
                             mi_comments = dict_get item (u ''comments'') (JStr []),
                             mi_tags = split_field (dict_get item (u ''tags'') (JList [])),
                             mi_identifiers = (if truthy isbn then [(u ''isbn'', isbn)] else [])\<rparr>
                   in (log_info (MsgQueued title) (put mi st2), Inr ()))))"

text \<open>The loop of lines 135-188: an item that is not a dict is logged and skipped.\<close>

fun normalize_items :: "pyenv \<Rightarrow> json list \<Rightarrow> run_state \<Rightarrow> unit outcome" where
  "normalize_items env [] st = (st, Inr ())"
| "normalize_items env (item # rest) st =
     (case item of
        JDict kvs \<Rightarrow>
          (case normalize_item env kvs st of
             (st', Inl e) \<Rightarrow> (st', Inl e)
           | (st', Inr _) \<Rightarrow> normalize_items env rest st')
      | _ \<Rightarrow> normalize_items env rest (log_info (MsgInvalidItem item) st))"

subsection \<open>\<open>identify\<close> (lines 94-190)\<close>

text \<open>The list of line 128.\<close>

definition identify_fields :: "ustr list" where
  "identify_fields = [u ''title'', u ''authors'', u ''isbn'', u ''publisher'', u ''pubdate'',
                      u ''comments'', u ''tags'']"

text \<open>Lines 106-111: a value that is set is quoted, one that is not stays empty.\<close>

definition quote_if_set :: "ustr \<Rightarrow> py_exception + ustr" where
  "quote_if_set s = (if s \<noteq> [] then quote s else Inr [])"

text \<open>\<open>title\<close> is \<open>None\<close> or a str; \<open>authors and authors[0]\<close> is the first author, if any.\<close>

definition title_text :: "ustr option \<Rightarrow> ustr" where
  "title_text title = (case title of None \<Rightarrow> [] | Some t \<Rightarrow> t)"

definition first_author :: "ustr list option \<Rightarrow> ustr" where
  "first_author authors = (case authors of Some (a # _) \<Rightarrow> a | _ \<Rightarrow> [])"

definition format_params ::
  "ustr \<Rightarrow> ustr option \<Rightarrow> ustr list option \<Rightarrow> py_exception + (ustr \<times> ustr) list" where
  "format_params isbn title authors =
     (case quote_if_set isbn of
        Inl e \<Rightarrow> Inl e
      | Inr qi \<Rightarrow>
          (case quote_if_set (title_text title) of
             Inl e \<Rightarrow> Inl e
           | Inr qt \<Rightarrow>
               (case quote_if_set (first_author authors) of
                  Inl e \<Rightarrow> Inl e
                | Inr qa \<Rightarrow> Inr [(u ''isbn'', qi), (u ''title'', qt), (u ''author'', qa)])))"

text \<open>Line 121: \<open>isbn or title\<close>; neither set gives the empty query.\<close>

definition query_of :: "ustr \<Rightarrow> ustr option \<Rightarrow> ustr" where
  "query_of isbn title = (if isbn \<noteq> [] then isbn else title_text title)"

text \<open>Lines 121-190, once the URL is formatted.\<close>

definition identify_query ::
  "pyenv \<Rightarrow> prefs \<Rightarrow> json \<Rightarrow> ustr \<Rightarrow> ustr \<Rightarrow> run_state \<Rightarrow> unit outcome" where
  "identify_query env p session_id query formatted_url st =
     (if query = [] then (log_error MsgNoQuery st, Inr ())
      else
        (case retrieve_data env p session_id query identify_fields formatted_url
                (log_info (MsgUsingQuery query) st) of
           (st', Inl e) \<Rightarrow> (st', Inl e)
         | (st', Inr data) \<Rightarrow>
             if \<not> truthy data then (log_error MsgRetrieveFailed st', Inr ())
             else
               (case py_iter data of
                  Inl e \<Rightarrow> (st', Inl e)
                | Inr items \<Rightarrow>
                    (case normalize_items env items st' of
                       (st'', Inl e) \<Rightarrow> (st'', Inl e)
                     | (st'', Inr _) \<Rightarrow> (log_info MsgIdentifyDone st'', Inr ())))))"

text \<open>Lines 101-119, once the session exists; \<open>except KeyError\<close> logs and returns.\<close>

definition identify_session ::
  "pyenv \<Rightarrow> prefs \<Rightarrow> json \<Rightarrow> ustr option \<Rightarrow> ustr list option \<Rightarrow> (ustr \<rightharpoonup> ustr) \<Rightarrow>
   run_state \<Rightarrow> unit outcome" where
  "identify_session env p session_id title authors identifiers st =
     (let isbn = (case identifiers (u ''isbn'') of None \<Rightarrow> [] | Some i \<Rightarrow> i);
          st1 = log_info (MsgInputs isbn title authors) st
      in case format_params isbn title authors of
           Inl e \<Rightarrow> (st1, Inl e)
         | Inr params \<Rightarrow>
             (case str_format env (request_url p) params of
                Inl e \<Rightarrow>
                  if is_KeyError e then (log_error (MsgUrlFormatError e) st1, Inr ())
                  else (st1, Inl e)
              | Inr formatted_url \<Rightarrow>
                  identify_query env p session_id (query_of isbn title) formatted_url
                    (log_info (MsgFormattedUrl formatted_url) st1)))"

definition identify ::
  "pyenv \<Rightarrow> prefs \<Rightarrow> ustr option \<Rightarrow> ustr list option \<Rightarrow> (ustr \<rightharpoonup> ustr) \<Rightarrow>
   run_state \<Rightarrow> unit outcome" where
  "identify env p title authors identifiers st =
     (case create_session env p (log_info MsgIdentifyStart st) of
        (st', Inl e) \<Rightarrow> (st', Inl e)
      | (st', Inr session_id) \<Rightarrow>
          if \<not> truthy session_id then (log_error MsgSessionFailed st', Inr ())
          else identify_session env p session_id title authors identifiers st')"

subsection \<open>\<open>download_cover\<close> (lines 192-195)\<close>

definition download_cover :: "run_state \<Rightarrow> unit outcome" where
  "download_cover st = (log_info MsgCoverNotImplemented st, Inr ())"

section \<open>The specification's words\<close>

text \<open>
  "Attempt parse against an ordered list of formats until one succeeds; first successful
  format wins": the date of the first format in the list that parses, if there is one.
\<close>

fun first_success :: "(ustr \<Rightarrow> py_exception + datetime) \<Rightarrow> ustr list \<Rightarrow> datetime option" where
  "first_success parse [] = None"
| "first_success parse (fmt # fmts) =
     (case parse fmt of Inr d \<Rightarrow> Some d | Inl _ \<Rightarrow> first_success parse fmts)"

section \<open>Stand-ins for the surroundings\<close>

text \<open>
  The examples below run the plugin against small stand-ins for the library and the
  remote service. They are fixtures, not part of the model: every general theorem
  holds for all surroundings.
\<close>

text \<open>
  \<open>str.format\<close> for templates whose replacement fields are bare names: \<open>{{\<close> and
  \<open>}}\<close> are the escaped braces, a name that is no keyword argument raises
  \<open>KeyError\<close>, an empty or numeric name is positional and raises \<open>IndexError\<close> (there are
  no positional arguments), an unbalanced brace raises \<open>ValueError\<close>. Conversions, format
  specifications, attributes and indices are not covered.
\<close>

fun format_scan :: "ustr option \<Rightarrow> ustr \<Rightarrow> (ustr \<times> ustr) list \<Rightarrow> py_exception + ustr" where
  "format_scan None [] kw = Inr []"
| "format_scan (Some name) [] kw = Inl ValueError"
| "format_scan (Some name) (c # cs) kw =
     (if c = 125 then
        (if list_all (\<lambda>x. 48 \<le> x \<and> x \<le> 57) name then Inl IndexError
         else case map_of kw name of
           None \<Rightarrow> Inl (KeyError (JStr name))
         | Some v \<Rightarrow> (case format_scan None cs kw of Inl e \<Rightarrow> Inl e | Inr r \<Rightarrow> Inr (v @ r)))
      else format_scan (Some (name @ [c])) cs kw)"
| "format_scan None (c # cs) kw =
     (if c = 123 then
        (case cs of
           [] \<Rightarrow> Inl ValueError
         | c' # cs' \<Rightarrow>
             if c' = 123 then
               (case format_scan None cs' kw of Inl e \<Rightarrow> Inl e | Inr r \<Rightarrow> Inr (123 # r))
             else format_scan (Some []) cs kw)
      else if c = 125 then
        (case cs of
           [] \<Rightarrow> Inl ValueError
         | c' # cs' \<Rightarrow>
             if c' = 125 then
               (case format_scan None cs' kw of Inl e \<Rightarrow> Inl e | Inr r \<Rightarrow> Inr (125 # r))
             else Inl ValueError)
      else (case format_scan None cs kw of Inl e \<Rightarrow> Inl e | Inr r \<Rightarrow> Inr (c # r)))"

definition plain_format :: "ustr \<Rightarrow> (ustr \<times> ustr) list \<Rightarrow> py_exception + ustr" where
  "plain_format template kw = format_scan None template kw"

text \<open>
  \<open>datetime.strptime\<close> for formats made of \<open>%Y\<close>, \<open>%m\<close>, \<open>%d\<close> and literal characters,
  on ASCII digits: the year is four digits, month and day take the alternatives of the
  library's pattern in its order (two digits before one), the whole text must be used
  up, and the date must exist. A directive the format leaves out keeps its default
  (1900, 1, 1).
\<close>

datatype directive = DirY | DirM | DirD | Lit codepoint

fun directives :: "ustr \<Rightarrow> directive list" where
  "directives (c # c' # cs) =
     (if c = 37 \<and> c' = 89 then DirY # directives cs
      else if c = 37 \<and> c' = 109 then DirM # directives cs
      else if c = 37 \<and> c' = 100 then DirD # directives cs
      else Lit c # directives (c' # cs))"
| "directives cs = map Lit cs"

definition digit :: "codepoint \<Rightarrow> bool" where
  "digit c \<longleftrightarrow> 48 \<le> c \<and> c \<le> 57"

fun year_alts :: "ustr \<Rightarrow> (nat \<times> ustr) list" where
  "year_alts (a # b # c # d # r) =
     (if digit a \<and> digit b \<and> digit c \<and> digit d
      then [((a - 48) * 1000 + (b - 48) * 100 + (c - 48) * 10 + (d - 48), r)] else [])"
| "year_alts _ = []"

fun month_alts :: "ustr \<Rightarrow> (nat \<times> ustr) list" where
  "month_alts [] = []"
| "month_alts (a # r) =
     (case r of
        [] \<Rightarrow> []
      | b # r' \<Rightarrow>
          (if a = 49 \<and> 48 \<le> b \<and> b \<le> 50 then [(10 + (b - 48), r')] else []) @
          (if a = 48 \<and> 49 \<le> b \<and> b \<le> 57 then [(b - 48, r')] else [])) @
     (if 49 \<le> a \<and> a \<le> 57 then [(a - 48, r)] else [])"

fun day_alts :: "ustr \<Rightarrow> (nat \<times> ustr) list" where
  "day_alts [] = []"
| "day_alts (a # r) =
     (case r of
        [] \<Rightarrow> []
      | b # r' \<Rightarrow>
          (if a = 51 \<and> 48 \<le> b \<and> b \<le> 49 then [(30 + (b - 48), r')] else []) @
          (if 49 \<le> a \<and> a \<le> 50 \<and> digit b then [((a - 48) * 10 + (b - 48), r')] else []) @
          (if a = 48 \<and> 49 \<le> b \<and> b \<le> 57 then [(b - 48, r')] else [])) @
     (if 49 \<le> a \<and> a \<le> 57 then [(a - 48, r)] else []) @
     (case r of
        [] \<Rightarrow> []
      | b # r' \<Rightarrow> if a = 32 \<and> 49 \<le> b \<and> b \<le> 57 then [(b - 48, r')] else [])"

fun matches :: "directive list \<Rightarrow> ustr \<Rightarrow> datetime \<Rightarrow> (datetime \<times> ustr) list" where
  "matches [] s acc = [(acc, s)]"
| "matches (Lit c # ds) s acc =
     (case s of [] \<Rightarrow> [] | x # xs \<Rightarrow> if x = c then matches ds xs acc else [])"
| "matches (DirY # ds) s acc =
     concat (map (\<lambda>vr. matches ds (snd vr) (acc\<lparr>year := fst vr\<rparr>)) (year_alts s))"
| "matches (DirM # ds) s acc =
     concat (map (\<lambda>vr. matches ds (snd vr) (acc\<lparr>month := fst vr\<rparr>)) (month_alts s))"
| "matches (DirD # ds) s acc =
     concat (map (\<lambda>vr. matches ds (snd vr) (acc\<lparr>day := fst vr\<rparr>)) (day_alts s))"

definition days_in_month :: "nat \<Rightarrow> nat \<Rightarrow> nat" where
  "days_in_month y m =
     (if m = 2 then (if y mod 4 = 0 \<and> (y mod 100 \<noteq> 0 \<or> y mod 400 = 0) then 29 else 28)
      else if m = 4 \<or> m = 6 \<or> m = 9 \<or> m = 11 then 30 else 31)"

definition digits_strptime :: "ustr \<Rightarrow> ustr \<Rightarrow> py_exception + datetime" where
  "digits_strptime s fmt =
     (case matches (directives fmt) s \<lparr>year = 1900, month = 1, day = 1\<rparr> of
        [] \<Rightarrow> Inl ValueError
      | (dt, rest) # _ \<Rightarrow>
          if rest = [] \<and> 1 \<le> year dt \<and> 1 \<le> day dt \<and> day dt \<le> days_in_month (year dt) (month dt)
          then Inr dt else Inl ValueError)"

text \<open>
  \<open>Request(url, ...)\<close> for a plain URL (no surrounding whitespace or brackets, no
  fragment): the URL must begin with a scheme, one or more characters other than \<open>/\<close> and
  \<open>:\<close> followed by a colon; otherwise the constructor raises \<open>ValueError\<close>.
\<close>

fun scheme_scan :: "bool \<Rightarrow> ustr \<Rightarrow> bool" where
  "scheme_scan seen [] = False"
| "scheme_scan seen (c # cs) =
     (if c = 58 then seen else if c = 47 then False else scheme_scan True cs)"

definition scheme_request :: "request \<Rightarrow> py_exception option" where
  "scheme_request r = (if scheme_scan False (req_url r) then None else Some ValueError)"

text \<open>
  \<open>json.loads\<close> on the three texts the examples use. A text that opens more than a
  thousand brackets in a row exhausts the interpreter's recursion limit; every other text
  is refused as malformed.
\<close>

definition json_texts :: "(ustr \<times> json) list" where
  \<open>json_texts =
     [(u ''[]'', JList []),
      (u ''{"session_id": "s1"}'', JDict [(u ''session_id'', JStr (u ''s1''))]),
      (u ''{"result": []}'', JDict [(u ''result'', JList [])])]\<close>

definition table_json_loads :: "ustr \<Rightarrow> py_exception + json" where
  "table_json_loads s =
     (if 1000 < length (takeWhile (\<lambda>c. c = 91) s) then Inl RecursionError
      else case map_of json_texts s of Some v \<Rightarrow> Inr v | None \<Rightarrow> Inl JSONDecodeError)"

text \<open>
  A remote service that answers the session call with \<open>session_reply\<close> and every other
  call with \<open>retrieve_reply\<close>.
\<close>

definition service ::
  "ustr \<Rightarrow> py_exception + ustr \<Rightarrow> py_exception + ustr \<Rightarrow> request \<Rightarrow> py_exception + ustr" where
  "service base session_reply retrieve_reply r =
     (if req_url r = base @ u ''/create_session'' then session_reply else retrieve_reply)"

definition example_prefs :: prefs where
  "example_prefs =
     \<lparr>api_key = u ''key'',
      api_base_url = u ''https://crawlemon.fsotool.com/api/v1'',
      request_url = u ''https://pdc.capub.cn/search.html#/quick?search={isbn} {title} {author}'',
      max_items = - 1,
      scroll_to_bottom = False,
      actions = u ''[]'',
      cmd = []\<rparr>"

definition example_env :: "py_exception + ustr \<Rightarrow> py_exception + ustr \<Rightarrow> pyenv" where
  "example_env session_reply retrieve_reply =
     \<lparr>make_request = scheme_request,
      http_post = service (api_base_url example_prefs) session_reply retrieve_reply,
      json_loads = table_json_loads,
      str_format = plain_format,
      strptime = digits_strptime\<rparr>"

definition session_ok :: "py_exception + ustr" where
  \<open>session_ok = Inr (u ''{"session_id": "s1"}'')\<close>

definition empty_result :: "py_exception + ustr" where
  \<open>empty_result = Inr (u ''{"result": []}'')\<close>

definition empty_state :: run_state where
  "empty_state = \<lparr>log_lines = [], result_queue = [], requests = []\<rparr>"

text \<open>A record as the service may return it: the date is written year and month only.\<close>

definition example_item :: "(ustr \<times> json) list" where
  "example_item =
     [(u ''title'', JStr (u ''Go'')),
      (u ''authors'', JStr (u ''A B'')),
      (u ''pubdate'', JStr (u '' 2021'' @ [24180] @ u ''3'' @ [26376] @ u '' ''))]"

definition example_date_text :: ustr where
  "example_date_text = u ''2021'' @ [24180] @ u ''3'' @ [26376]"

text \<open>
  Options whose \<open>actions\<close> is not JSON, options whose \<open>actions\<close> is a hundred thousand
  opening brackets, options whose base URL has no scheme, options whose template names a
  field the plugin does not supply, and options whose template has a positional field.
\<close>

definition deep_actions_prefs :: prefs where
  "deep_actions_prefs = example_prefs\<lparr>actions := replicate 100000 91\<rparr>"

definition noscheme_prefs :: prefs where
  "noscheme_prefs = example_prefs\<lparr>api_base_url := u ''crawlemon.fsotool.com/api/v1''\<rparr>"

definition broken_actions_prefs :: prefs where
  "broken_actions_prefs = example_prefs\<lparr>actions := u ''[{type: click''\<rparr>"

definition unknown_field_prefs :: prefs where
  "unknown_field_prefs = example_prefs\<lparr>request_url := u ''https://x/?q={isbn}&p={publisher}''\<rparr>"

definition positional_prefs :: prefs where
  "positional_prefs = example_prefs\<lparr>request_url := u ''https://x/?q={0}''\<rparr>"

text \<open>A query by ISBN, title and author, and what formatting the default template gives.\<close>

definition example_identifiers :: "ustr \<rightharpoonup> ustr" where
  "example_identifiers = [u ''isbn'' \<mapsto> u ''123'']"

definition example_params :: "(ustr \<times> ustr) list" where
  "example_params =
     [(u ''isbn'', u ''123''), (u ''title'', u ''Go''), (u ''author'', u ''Jane%20Doe'')]"

definition example_url :: ustr where
  "example_url = u ''https://pdc.capub.cn/search.html#/quick?search=123 Go Jane%20Doe''"

section \<open>Properties\<close>

subsection \<open>What a call leaves untouched\<close>

lemma log_frame [simp]:
  "result_queue (log_info m st) = result_queue st"
  "result_queue (log_warn m st) = result_queue st"
  "result_queue (log_error m st) = result_queue st"
  "requests (log_info m st) = requests st"
  "requests (log_warn m st) = requests st"
  "requests (log_error m st) = requests st"
  by (simp_all add: log_info_def log_warn_def log_error_def)

lemma sent_frame [simp]:
  "result_queue (sent r st) = result_queue st"
  "requests (sent r st) = requests st @ [r]"
  "log_lines (sent r st) = log_lines st"
  by (simp_all add: sent_def)

lemma put_frame [simp]:
  "result_queue (put mi st) = result_queue st @ [mi]"
  "requests (put mi st) = requests st"
  "log_lines (put mi st) = log_lines st"
  by (simp_all add: put_def)

lemma log_lines_log [simp]:
  "log_lines (log_info m st) = log_lines st @ [(INFO, m)]"
  "log_lines (log_warn m st) = log_lines st @ [(WARN, m)]"
  "log_lines (log_error m st) = log_lines st @ [(ERROR, m)]"
  by (simp_all add: log_info_def log_warn_def log_error_def)

lemma urlopen_frame [simp]:
  "fst (urlopen env req st) = sent req st"
  "snd (urlopen env req st) = http_post env req"
  by (simp_all add: urlopen_def)

lemma session_try_frame:
  "result_queue (fst (session_try env req st)) = result_queue st \<and>
   requests (fst (session_try env req st)) = requests st @ [req]"
  by (simp add: session_try_def urlopen_def split: sum.splits)

lemma create_session_frame:
  "result_queue (fst (create_session env p st)) = result_queue st \<and>
   requests (fst (create_session env p st)) =
     (if make_request env (session_request p) = None then requests st @ [session_request p]
      else requests st)"
proof (cases "make_request env (session_request p)")
  case (Some e)
  then show ?thesis by (simp add: create_session_def Let_def)
next
  case None
  obtain st' r where tr:
    "session_try env (session_request p) (log_info MsgSessionStart st) = (st', r)"
    by (cases "session_try env (session_request p) (log_info MsgSessionStart st)")
  from session_try_frame [of env "session_request p" "log_info MsgSessionStart st"] tr
  have "result_queue st' = result_queue st" "requests st' = requests st @ [session_request p]"
    by simp_all
  with tr None show ?thesis
    by (cases r) (simp_all add: create_session_def Let_def)
qed

lemma create_session_made_request:
  assumes "create_session env p st = (st', Inr sid)" and "truthy sid"
  shows "make_request env (session_request p) = None"
proof (cases "make_request env (session_request p)")
  case None
  then show ?thesis .
next
  case (Some e)
  with assms(1) show ?thesis by (simp add: create_session_def Let_def)
qed

lemma retrieve_try_frame:
  "result_queue (fst (retrieve_try env req st)) = result_queue st \<and>
   requests (fst (retrieve_try env req st)) = requests st @ [req]"
  by (simp add: retrieve_try_def urlopen_def Let_def split: sum.splits)

lemma post_retrieve_frame:
  "result_queue (fst (post_retrieve env req st)) = result_queue st \<and>
   requests (fst (post_retrieve env req st)) =
     (if make_request env req = None then requests st @ [req] else requests st)"
proof (cases "make_request env req")
  case (Some e)
  then show ?thesis by (simp add: post_retrieve_def)
next
  case None
  obtain st' r where tr: "retrieve_try env req st = (st', r)"
    by (cases "retrieve_try env req st")
  from retrieve_try_frame [of env req st] tr
  have "result_queue st' = result_queue st" "requests st' = requests st @ [req]"
    by simp_all
  with tr None show ?thesis
    by (cases r) (simp_all add: post_retrieve_def)
qed

lemma parse_actions_frame:
  "result_queue (fst (parse_actions env p st)) = result_queue st \<and>
   requests (fst (parse_actions env p st)) = requests st"
  by (simp add: parse_actions_def split: sum.splits)

lemma retrieve_data_queue:
  "result_queue (fst (retrieve_data env p sid q fs url st)) = result_queue st"
proof -
  obtain st' r where pa: "parse_actions env p (log_info (MsgRetrieveStart url) st) = (st', r)"
    by (cases "parse_actions env p (log_info (MsgRetrieveStart url) st)")
  from parse_actions_frame [of env p "log_info (MsgRetrieveStart url) st"] pa
  have "result_queue st' = result_queue st" by simp
  with pa show ?thesis
    by (cases r) (simp_all add: retrieve_data_def post_retrieve_frame)
qed


subsection \<open>Splitting authors and tags\<close>

lemma split_on_no_sep: "d \<notin> set s \<Longrightarrow> split_on d s = [s]"
  by (induction s) auto

text \<open>
  Whatever the test of lines 142 and 178 finds, the string is cut at its ASCII commas
  and nowhere else: without a comma, \<open>split(",")\<close> returns the string whole.
\<close>

lemma split_field_comma_only: "split_field (JStr s) = JList (map JStr (split_on comma s))"
  by (simp add: split_on_no_sep)

text \<open>
  C1. The claim: a string with a space (or a full-width comma) and no ASCII comma is
  split into its space-separated parts. The code tests for the three delimiters but
  splits at the comma only, so \<open>"A B"\<close> stays one element although a delimiter is
  present, and so does a string whose only delimiter is the full-width comma.
\<close>

theorem C1_space_is_not_split:
  "split_field (JStr (u ''A B'')) = JList [JStr (u ''A B'')] \<and>
   split_field (JStr (u ''A'' @ [fullwidth_comma] @ u ''B'')) =
     JList [JStr (u ''A'' @ [fullwidth_comma] @ u ''B'')]"
  by (simp add: comma_def space_def fullwidth_comma_def)

subsection \<open>The loop over the retrieved entries\<close>

text \<open>
  C2. The claim: every mapping yields one record whatever its field values are. A record
  whose \<open>pubdate\<close> is \<open>null\<close> raises \<open>AttributeError\<close> at \<open>.strip()\<close>, outside the
  \<open>try\<close> of the date parsing: nothing is put on the queue for it, and the record after
  it is never reached.
\<close>

theorem C2_null_pubdate_aborts_batch:
  "normalize_items env
     [JDict [(u ''pubdate'', JNull)], JDict [(u ''title'', JStr (u ''B''))]] st =
     (log_info (MsgProcessingItem (JDict [(u ''pubdate'', JNull)])) st, Inl AttributeError)"
  by (simp add: normalize_item_def dict_get_def Let_def)

lemma normalize_items_append:
  "normalize_items env (xs @ ys) st =
     (case normalize_items env xs st of
        (st', Inl e) \<Rightarrow> (st', Inl e)
      | (st', Inr _) \<Rightarrow> normalize_items env ys st')"
  by (induction xs arbitrary: st) (auto split: json.splits prod.splits sum.splits)

text \<open>
  C8. An entry that is not a mapping, wherever it stands in the list: once the entries
  before it are done, the loop writes one log line for it, puts nothing on the queue,
  raises nothing and goes on with the entries after it.
\<close>

theorem C8_non_mapping_skipped:
  assumes "\<not> is_dict item" and "normalize_items env before st = (st1, Inr ())"
  shows "normalize_items env (before @ item # rest) st =
           normalize_items env rest (log_info (MsgInvalidItem item) st1)"
  using assms by (cases item) (simp_all add: normalize_items_append)

theorem C8_witness:
  "\<not> is_dict (JInt 7) \<and>
   normalize_items (example_env session_ok empty_result) [] empty_state = (empty_state, Inr ()) \<and>
   normalize_items (example_env session_ok empty_result) ([] @ JInt 7 # [JStr (u ''x'')])
       empty_state =
     (log_info (MsgInvalidItem (JStr (u ''x''))) (log_info (MsgInvalidItem (JInt 7)) empty_state),
      Inr ())"
  using C8_non_mapping_skipped [of "JInt 7" "example_env session_ok empty_result" "[]" empty_state
      empty_state "[JStr (u ''x'')]"]
  by simp

subsection \<open>The publication date\<close>

lemma try_formats_first_success:
  assumes "\<forall>fmt\<in>set fmts. \<forall>e. strptime env s fmt = Inl e \<longrightarrow> is_ValueError e"
  shows "snd (try_formats env s fmts st) = Inr (first_success (strptime env s) fmts) \<and>
         result_queue (fst (try_formats env s fmts st)) = result_queue st \<and>
         (first_success (strptime env s) fmts = None \<longrightarrow>
            fst (try_formats env s fmts st) = log_warn (MsgPubdateUnparseable s) st)"
  using assms by (induction fmts) (auto split: sum.splits)

lemma parse_pubdate_first_success:
  assumes "\<forall>fmt\<in>set pubdate_formats. \<forall>e. strptime env s fmt = Inl e \<longrightarrow> is_ValueError e"
  shows "snd (parse_pubdate env s st) =
           (if s = [] then None else first_success (strptime env s) pubdate_formats) \<and>
         result_queue (fst (parse_pubdate env s st)) = result_queue st \<and>
         (s \<noteq> [] \<and> first_success (strptime env s) pubdate_formats = None \<longrightarrow>
            fst (parse_pubdate env s st) = log_warn (MsgPubdateUnparseable s) st)"
proof (cases "s = []")
  case True
  then show ?thesis by (simp add: parse_pubdate_def)
next
  case False
  obtain st' r where tf: "try_formats env s pubdate_formats st = (st', r)"
    by (cases "try_formats env s pubdate_formats st")
  from try_formats_first_success [OF assms, of st] tf
  have "r = Inr (first_success (strptime env s) pubdate_formats)"
       "result_queue st' = result_queue st"
       "first_success (strptime env s) pubdate_formats = None \<longrightarrow>
          st' = log_warn (MsgPubdateUnparseable s) st"
    by simp_all
  with False tf show ?thesis by (simp add: parse_pubdate_def)
qed

text \<open>
  C3. Let \<open>s\<close> be the record's \<open>pubdate\<close> (the empty string when the key is missing)
  with the whitespace trimmed, and let \<open>strptime\<close> refuse a text the way the library
  does, with \<open>ValueError\<close>. Then the record is emitted without error; its date is
  absent when \<open>s\<close> is empty, and otherwise it is the date of the first format of the
  list \<open>%Y-%m-%d\<close>, \<open>%Y\<close>U+5E74\<open>%m\<close>U+6708\<open>%d\<close>U+65E5, \<open>%Y\<close>U+5E74\<open>%m\<close>U+6708,
  \<open>%Y/%m/%d\<close>, \<open>%Y.%m.%d\<close> that parses \<open>s\<close>; when none does the date is absent and a
  warning is logged.
\<close>

theorem C3_pubdate_formats_in_order:
  assumes "py_strip (dict_get item (u ''pubdate'') (JStr [])) = Inr s"
      and "\<forall>fmt\<in>set pubdate_formats. \<forall>e. strptime env s fmt = Inl e \<longrightarrow> is_ValueError e"
  shows "snd (normalize_item env item st) = Inr () \<and>
         (\<exists>mi. result_queue (fst (normalize_item env item st)) = result_queue st @ [mi] \<and>
               mi_pubdate mi =
                 (if s = [] then None else first_success (strptime env s) pubdate_formats)) \<and>
         (s \<noteq> [] \<and> first_success (strptime env s) pubdate_formats = None \<longrightarrow>
            (WARN, MsgPubdateUnparseable s) \<in> set (log_lines (fst (normalize_item env item st))))"
proof -
  let ?st1 = "log_info (MsgRawPubdate s) (log_info (MsgProcessingItem (JDict item)) st)"
  obtain st2 d where pp: "parse_pubdate env s ?st1 = (st2, d)"
    by (cases "parse_pubdate env s ?st1")
  from parse_pubdate_first_success [OF assms(2), of ?st1] pp
  have d: "d = (if s = [] then None else first_success (strptime env s) pubdate_formats)"
    and q: "result_queue st2 = result_queue st"
    and w: "s \<noteq> [] \<and> first_success (strptime env s) pubdate_formats = None \<longrightarrow>
              st2 = log_warn (MsgPubdateUnparseable s) ?st1"
    by simp_all
  from assms(1) pp d q w show ?thesis
    by (auto simp add: normalize_item_def Let_def)
qed

lemma example_strip:
  "py_strip (dict_get example_item (u ''pubdate'') (JStr [])) = Inr example_date_text"
  by (simp add: example_item_def example_date_text_def dict_get_def strip_def is_space_def)

lemma example_parses:
  "map (digits_strptime example_date_text) pubdate_formats =
     [Inl ValueError, Inl ValueError, Inr \<lparr>year = 2021, month = 3, day = 1\<rparr>,
      Inl ValueError, Inl ValueError]"
  by (simp add: digits_strptime_def example_date_text_def pubdate_formats_def digit_def
      days_in_month_def)

theorem C3_witness:
  "py_strip (dict_get example_item (u ''pubdate'') (JStr [])) = Inr example_date_text \<and>
   list_all (\<lambda>r. case r of Inl e \<Rightarrow> is_ValueError e | Inr _ \<Rightarrow> True)
     (map (strptime (example_env session_ok empty_result) example_date_text) pubdate_formats) \<and>
   snd (normalize_item (example_env session_ok empty_result) example_item empty_state) = Inr () \<and>
   (\<exists>mi. result_queue (fst (normalize_item (example_env session_ok empty_result) example_item
                              empty_state)) = [mi] \<and>
         mi_pubdate mi = Some \<lparr>year = 2021, month = 3, day = 1\<rparr>)"
proof -
  let ?env = "example_env session_ok empty_result"
  have p: "map (strptime ?env example_date_text) pubdate_formats =
     [Inl ValueError, Inl ValueError, Inr \<lparr>year = 2021, month = 3, day = 1\<rparr>,
      Inl ValueError, Inl ValueError]"
    using example_parses by (simp add: example_env_def)
  have h2: "\<forall>fmt\<in>set pubdate_formats. \<forall>e.
              strptime ?env example_date_text fmt = Inl e \<longrightarrow> is_ValueError e"
  proof (intro ballI allI impI)
    fix fmt e
    assume "fmt \<in> set pubdate_formats" and e: "strptime ?env example_date_text fmt = Inl e"
    then have "Inl e \<in> set (map (strptime ?env example_date_text) pubdate_formats)"
      by force
    then show "is_ValueError e" unfolding p by auto
  qed
  have fs: "first_success (strptime ?env example_date_text) pubdate_formats
              = Some \<lparr>year = 2021, month = 3, day = 1\<rparr>"
    using p by (simp add: pubdate_formats_def)
  have ne: "example_date_text \<noteq> []" by (simp add: example_date_text_def)
  from C3_pubdate_formats_in_order [OF example_strip h2, of empty_state] fs ne
  have "snd (normalize_item ?env example_item empty_state) = Inr () \<and>
        (\<exists>mi. result_queue (fst (normalize_item ?env example_item empty_state)) = [mi] \<and>
              mi_pubdate mi = Some \<lparr>year = 2021, month = 3, day = 1\<rparr>)"
    by (simp add: empty_state_def)
  with example_strip p show ?thesis by simp
qed

subsection \<open>No session, no retrieval\<close>

text \<open>
  C5. Whenever \<open>create_session\<close> does not return a session id that counts as true (it
  returned \<open>None\<close> after a \<open>URLError\<close>, such as a non-2xx status, or an empty id, or it
  raised), \<open>identify\<close> puts nothing on the queue and makes no retrieval call: the
  network calls it has made are the session call alone, or none at all when the session
  request could not even be built. It returns normally when \<open>create_session\<close> returned,
  and passes the exception on when it raised.
\<close>

theorem C5_no_session_no_retrieval:
  assumes "create_session env p (log_info MsgIdentifyStart st) = (st', r)"
      and "\<forall>sid. r = Inr sid \<longrightarrow> \<not> truthy sid"
  shows "result_queue (fst (identify env p title authors identifiers st)) = result_queue st \<and>
         requests (fst (identify env p title authors identifiers st)) =
           (if make_request env (session_request p) = None
            then requests st @ [session_request p] else requests st) \<and>
         snd (identify env p title authors identifiers st) =
           (case r of Inl e \<Rightarrow> Inl e | Inr _ \<Rightarrow> Inr ())"
proof -
  from create_session_frame [of env p "log_info MsgIdentifyStart st"] assms(1)
  have fr: "result_queue st' = result_queue st"
    "requests st' = (if make_request env (session_request p) = None
                     then requests st @ [session_request p] else requests st)"
    by simp_all
  show ?thesis
  proof (cases r)
    case (Inl e)
    with assms(1) fr show ?thesis by (simp add: identify_def)
  next
    case (Inr sid)
    with assms(2) have "\<not> truthy sid" by simp
    with Inr assms(1) fr show ?thesis by (simp add: identify_def)
  qed
qed

text \<open>The stand-ins at work.\<close>

lemma example_make_request:
  "api_base_url p = api_base_url example_prefs \<Longrightarrow>
   make_request (example_env a b) (session_request p) = None"
  by (simp add: example_env_def scheme_request_def session_request_def example_prefs_def)

lemma example_session_request:
  "api_base_url p = api_base_url example_prefs \<Longrightarrow>
   http_post (example_env a b) (session_request p) = a"
  by (simp add: example_env_def service_def session_request_def)

lemma example_json_loads: "json_loads (example_env a b) = table_json_loads"
  by (simp add: example_env_def)

lemmas table_json = table_json_loads_def json_texts_def

lemma example_session_any:
  "api_base_url p = api_base_url example_prefs \<Longrightarrow>
   create_session (example_env session_ok b) p st =
     (log_info (MsgSessionCreated (JStr (u ''s1'')))
        (sent (session_request p) (log_info MsgSessionStart st)),
      Inr (JStr (u ''s1'')))"
  by (simp add: create_session_def session_try_def urlopen_def example_make_request
      example_session_request example_json_loads session_ok_def table_json Let_def)

lemma example_session_http_error:
  "create_session (example_env (Inl (HTTPError 500)) b) example_prefs st =
     (log_error (MsgSessionError (HTTPError 500))
        (sent (session_request example_prefs) (log_info MsgSessionStart st)), Inr JNull)"
  by (simp add: create_session_def session_try_def urlopen_def example_make_request
      example_session_request Let_def)

theorem C5_witness:
  "create_session (example_env (Inl (HTTPError 500)) empty_result) example_prefs
      (log_info MsgIdentifyStart empty_state) =
     (log_error (MsgSessionError (HTTPError 500))
        (sent (session_request example_prefs)
           (log_info MsgSessionStart (log_info MsgIdentifyStart empty_state))), Inr JNull) \<and>
   \<not> truthy JNull \<and>
   make_request (example_env (Inl (HTTPError 500)) empty_result) (session_request example_prefs)
     = None \<and>
   result_queue (fst (identify (example_env (Inl (HTTPError 500)) empty_result) example_prefs
      (Some (u ''Go'')) None Map.empty empty_state)) = [] \<and>
   requests (fst (identify (example_env (Inl (HTTPError 500)) empty_result) example_prefs
      (Some (u ''Go'')) None Map.empty empty_state)) = [session_request example_prefs] \<and>
   snd (identify (example_env (Inl (HTTPError 500)) empty_result) example_prefs
      (Some (u ''Go'')) None Map.empty empty_state) = Inr ()"
proof -
  let ?env = "example_env (Inl (HTTPError 500)) empty_result"
  have cs: "create_session ?env example_prefs (log_info MsgIdentifyStart empty_state) =
     (log_error (MsgSessionError (HTTPError 500))
        (sent (session_request example_prefs)
           (log_info MsgSessionStart (log_info MsgIdentifyStart empty_state))), Inr JNull)"
    by (rule example_session_http_error)
  have h: "\<forall>sid. (Inr JNull :: py_exception + json) = Inr sid \<longrightarrow> \<not> truthy sid"
    by simp
  have m: "make_request ?env (session_request example_prefs) = None"
    by (rule example_make_request) simp
  have e: "result_queue empty_state = []" "requests empty_state = []"
    by (simp_all add: empty_state_def)
  from C5_no_session_no_retrieval [OF cs h, of "Some (u ''Go'')" None Map.empty] cs m e
  show ?thesis by simp
qed

subsection \<open>The session client\<close>

text \<open>
  C6, as stated, fails for a body that is not JSON: \<open>json.loads\<close> raises
  \<open>JSONDecodeError\<close>, which \<open>except URLError\<close> does not catch, so \<open>create_session\<close>
  raises instead of returning the failure value.
\<close>

theorem C6_malformed_body_raises:
  "snd (create_session (example_env (Inr (u ''<html>'')) empty_result) example_prefs empty_state)
     = Inl JSONDecodeError"
  by (simp add: create_session_def session_try_def urlopen_def example_make_request
      example_session_request example_json_loads table_json Let_def)

text \<open>
  C6, amended. Let \<open>req\<close> be the session request, and let the \<open>Request\<close> object be built.
  On a \<open>URLError\<close> of the call (a connection error, or a non-2xx status, which is an
  \<open>HTTPError\<close>) \<open>create_session\<close> logs the error and returns \<open>None\<close>; the call was made
  once and is not repeated. When the body cannot be parsed, the parser's exception leaves
  \<open>create_session\<close> unless it is a \<open>URLError\<close>, again after the one call.
\<close>

theorem C6_url_error_gives_failure:
  assumes "req = \<lparr>req_url = api_base_url p @ u ''/create_session'',
                  req_body = JDict [(u ''api_key'', JStr (api_key p))]\<rparr>"
      and "make_request env req = None"
  shows "(\<forall>e. http_post env req = Inl e \<and> is_URLError e \<longrightarrow>
            create_session env p st =
              (log_error (MsgSessionError e) (sent req (log_info MsgSessionStart st)),
               Inr JNull)) \<and>
         (\<forall>body e. http_post env req = Inr body \<and> json_loads env body = Inl e \<and>
            \<not> is_URLError e \<longrightarrow>
            create_session env p st = (sent req (log_info MsgSessionStart st), Inl e))"
proof (intro conjI allI impI)
  have r: "session_request p = req" using assms(1) by (simp add: session_request_def)
  {
    fix e
    assume "http_post env req = Inl e \<and> is_URLError e"
    with r assms(2) show "create_session env p st =
              (log_error (MsgSessionError e) (sent req (log_info MsgSessionStart st)),
               Inr JNull)"
      by (simp add: create_session_def session_try_def urlopen_def Let_def)
  }
  {
    fix body e
    assume "http_post env req = Inr body \<and> json_loads env body = Inl e \<and> \<not> is_URLError e"
    with r assms(2) show "create_session env p st =
              (sent req (log_info MsgSessionStart st), Inl e)"
      by (simp add: create_session_def session_try_def urlopen_def Let_def)
  }
qed

theorem C6_witness:
  "make_request (example_env (Inl (HTTPError 500)) empty_result) (session_request example_prefs)
     = None \<and>
   http_post (example_env (Inl (HTTPError 500)) empty_result) (session_request example_prefs)
     = Inl (HTTPError 500) \<and>
   is_URLError (HTTPError 500) \<and>
   create_session (example_env (Inl (HTTPError 500)) empty_result) example_prefs empty_state =
     (log_error (MsgSessionError (HTTPError 500))
        (sent (session_request example_prefs) (log_info MsgSessionStart empty_state)), Inr JNull) \<and>
   http_post (example_env (Inr (u ''<html>'')) empty_result) (session_request example_prefs)
     = Inr (u ''<html>'') \<and>
   json_loads (example_env (Inr (u ''<html>'')) empty_result) (u ''<html>'') = Inl JSONDecodeError \<and>
   \<not> is_URLError JSONDecodeError \<and>
   create_session (example_env (Inr (u ''<html>'')) empty_result) example_prefs empty_state =
     (sent (session_request example_prefs) (log_info MsgSessionStart empty_state),
      Inl JSONDecodeError)"
proof -
  let ?a = "example_env (Inl (HTTPError 500)) empty_result"
  let ?b = "example_env (Inr (u ''<html>'')) empty_result"
  have r: "session_request example_prefs =
      \<lparr>req_url = api_base_url example_prefs @ u ''/create_session'',
       req_body = JDict [(u ''api_key'', JStr (api_key example_prefs))]\<rparr>"
    by (simp add: session_request_def)
  have ma: "make_request ?a (session_request example_prefs) = None"
    by (rule example_make_request) simp
  have mb: "make_request ?b (session_request example_prefs) = None"
    by (rule example_make_request) simp
  have ha: "http_post ?a (session_request example_prefs) = Inl (HTTPError 500)"
    by (rule example_session_request) simp
  have hb: "http_post ?b (session_request example_prefs) = Inr (u ''<html>'')"
    by (rule example_session_request) simp
  have jb: "json_loads ?b (u ''<html>'') = Inl JSONDecodeError"
    by (simp add: example_json_loads table_json)
  from C6_url_error_gives_failure [OF r ma, of empty_state] ha
  have a: "create_session ?a example_prefs empty_state =
     (log_error (MsgSessionError (HTTPError 500))
        (sent (session_request example_prefs) (log_info MsgSessionStart empty_state)), Inr JNull)"
    by simp
  from C6_url_error_gives_failure [OF r mb, of empty_state] hb jb
  have b: "create_session ?b example_prefs empty_state =
     (sent (session_request example_prefs) (log_info MsgSessionStart empty_state),
      Inl JSONDecodeError)"
    by simp
  from a b ma ha hb jb show ?thesis by simp
qed

subsection \<open>The retrieval client\<close>

text \<open>
  C9, as stated, fails for a string that \<open>json.loads\<close> rejects with an exception other
  than \<open>JSONDecodeError\<close>: on a hundred thousand opening brackets it raises
  \<open>RecursionError\<close>, which \<open>except json.JSONDecodeError\<close> does not catch. The exception
  leaves \<open>retrieve_data\<close> and no request is sent.
\<close>

lemma deep_refused: "table_json_loads (replicate 100000 91) = Inl RecursionError"
  by (simp add: table_json_loads_def takeWhile_replicate)

theorem C9_deep_actions_are_fatal:
  "retrieve_data (example_env session_ok empty_result) deep_actions_prefs (JStr (u ''s1''))
      (u ''Go'') identify_fields (u ''https://x/'') empty_state =
     (log_info (MsgRetrieveStart (u ''https://x/'')) empty_state, Inl RecursionError)"
  by (simp add: retrieve_data_def parse_actions_def example_json_loads deep_actions_prefs_def
      example_prefs_def deep_refused)

text \<open>
  C9, amended. Let \<open>json.loads\<close> refuse the \<open>actions\<close> option with \<open>JSONDecodeError\<close>,
  let \<open>req\<close> be the retrieval request with the empty action list in the place of the
  actions, and let the \<open>Request\<close> object be built. Then \<open>retrieve_data\<close> logs the
  warning and makes exactly the call \<open>req\<close>. What it returns is decided by that call
  alone: on a \<open>URLError\<close> it logs the error and returns \<open>None\<close>, and on a reply whose
  body is an object it returns the \<open>result\<close> entry (the empty list when there is none).
\<close>

theorem C9_actions_parse_failure_not_fatal:
  assumes "json_loads env (actions p) = Inl JSONDecodeError"
      and "req = \<lparr>req_url = api_base_url p @ u ''/retrieve'',
                  req_body = JDict
                    [(u ''cmd'', JStr (if cmd p \<noteq> [] then cmd p else q)),
                     (u ''url'', JStr url),
                     (u ''fields'', JList (map JStr fs)),
                     (u ''session_id'', sid),
                     (u ''scroll_to_bottom'', JBool (scroll_to_bottom p)),
                     (u ''max_items'', JInt (max_items p)),
                     (u ''local'', JBool True),
                     (u ''actions'', JList [])]\<rparr>"
      and "make_request env req = None"
      and "st1 = sent req (log_warn MsgActionsParseFailed (log_info (MsgRetrieveStart url) st))"
  shows "requests (fst (retrieve_data env p sid q fs url st)) = requests st @ [req] \<and>
         (WARN, MsgActionsParseFailed) \<in> set (log_lines (fst (retrieve_data env p sid q fs url st))) \<and>
         (\<forall>e. http_post env req = Inl e \<and> is_URLError e \<longrightarrow>
            retrieve_data env p sid q fs url st =
              (log_error (MsgRetrieveHttpError e) st1, Inr JNull)) \<and>
         (\<forall>body kvs n. http_post env req = Inr body \<and> json_loads env body = Inr (JDict kvs) \<and>
            py_len (dict_get kvs (u ''result'') (JList [])) = Inr n \<longrightarrow>
            retrieve_data env p sid q fs url st =
              (log_info (MsgRetrieved n) (log_info (MsgRawResponse (JDict kvs)) st1),
               Inr (dict_get kvs (u ''result'') (JList []))))"
proof -
  let ?st = "log_warn MsgActionsParseFailed (log_info (MsgRetrieveStart url) st)"
  have r: "retrieve_request p sid q fs url (JList []) = req"
    using assms(2) by (simp add: retrieve_request_def)
  have eq: "retrieve_data env p sid q fs url st = post_retrieve env req ?st"
    using assms(1) r by (simp add: retrieve_data_def parse_actions_def)
  have a: "requests (fst (retrieve_data env p sid q fs url st)) = requests st @ [req]"
    using eq assms(3) by (simp add: post_retrieve_frame)
  obtain st' x where tr: "retrieve_try env req ?st = (st', x)"
    by (cases "retrieve_try env req ?st")
  have "\<exists>ls. log_lines st' = log_lines ?st @ ls"
    using tr by (auto simp add: retrieve_try_def urlopen_def Let_def split: sum.splits)
  then have w': "(WARN, MsgActionsParseFailed) \<in> set (log_lines st')" by auto
  have w: "(WARN, MsgActionsParseFailed) \<in> set (log_lines (fst (retrieve_data env p sid q fs url st)))"
    using eq assms(3) tr w' by (cases x) (simp_all add: post_retrieve_def)
  have b: "\<forall>e. http_post env req = Inl e \<and> is_URLError e \<longrightarrow>
            retrieve_data env p sid q fs url st =
              (log_error (MsgRetrieveHttpError e) st1, Inr JNull)"
    using eq assms(3,4) by (simp add: post_retrieve_def retrieve_try_def urlopen_def)
  have c: "\<forall>body kvs n. http_post env req = Inr body \<and> json_loads env body = Inr (JDict kvs) \<and>
            py_len (dict_get kvs (u ''result'') (JList [])) = Inr n \<longrightarrow>
            retrieve_data env p sid q fs url st =
              (log_info (MsgRetrieved n) (log_info (MsgRawResponse (JDict kvs)) st1),
               Inr (dict_get kvs (u ''result'') (JList [])))"
    using eq assms(3,4) by (simp add: post_retrieve_def retrieve_try_def urlopen_def Let_def)
  from a w b c show ?thesis by blast
qed

subsection \<open>The order of the steps of \<open>identify\<close>\<close>

lemma identify_query_empty:
  "identify_query env p sid [] url st = (log_error MsgNoQuery st, Inr ())"
  by (simp add: identify_query_def)

lemma identify_session_no_query:
  assumes "identifiers (u ''isbn'') = None \<or> identifiers (u ''isbn'') = Some []"
      and "title = None \<or> title = Some []"
  shows "result_queue (fst (identify_session env p sid title authors identifiers st))
           = result_queue st \<and>
         requests (fst (identify_session env p sid title authors identifiers st)) = requests st"
proof -
  from assms(1) have i: "(case identifiers (u ''isbn'') of None \<Rightarrow> [] | Some i \<Rightarrow> i) = []"
    by auto
  from assms(2) have q: "query_of [] title = []"
    by (auto simp add: query_of_def title_text_def)
  show ?thesis
    using i q
    by (simp add: identify_session_def Let_def identify_query_empty split: sum.splits)
qed

text \<open>
  C10, as stated, fails when the session request cannot be built: for a base URL
  without a scheme \<open>Request(...)\<close> raises \<open>ValueError\<close> on line 49, before \<open>urlopen\<close>. No
  network call is made, and the exception leaves \<open>identify\<close>.
\<close>

theorem C10_no_scheme_no_call:
  "identify (example_env session_ok empty_result) noscheme_prefs None None Map.empty empty_state =
     (log_info MsgSessionStart (log_info MsgIdentifyStart empty_state), Inl ValueError) \<and>
   requests (fst (identify (example_env session_ok empty_result) noscheme_prefs None None
     Map.empty empty_state)) = []"
  by (simp add: identify_def create_session_def Let_def example_env_def scheme_request_def
      session_request_def noscheme_prefs_def example_prefs_def empty_state_def)

text \<open>
  C10, amended. Let there be no ISBN (missing or empty) and no title (\<open>None\<close> or empty),
  let \<open>req\<close> be the session request, and let the \<open>Request\<close> object be built. Then
  \<open>identify\<close> makes the call \<open>req\<close>, and it is the only call; nothing is put on the queue.
  If the reply carries a session id that counts as true and the URL is formatted, the log
  shows the order: the session is created, the URL is formatted, and only then is the
  missing query reported, after which \<open>identify\<close> returns.
\<close>

theorem C10_session_before_input_check:
  assumes "identifiers (u ''isbn'') = None \<or> identifiers (u ''isbn'') = Some []"
      and "title = None \<or> title = Some []"
      and "req = \<lparr>req_url = api_base_url p @ u ''/create_session'',
                  req_body = JDict [(u ''api_key'', JStr (api_key p))]\<rparr>"
      and "make_request env req = None"
  shows "requests (fst (identify env p title authors identifiers st)) = requests st @ [req] \<and>
         result_queue (fst (identify env p title authors identifiers st)) = result_queue st \<and>
         (\<forall>body session_data sid params url.
            http_post env req = Inr body \<and> json_loads env body = Inr session_data \<and>
            subscript session_data (u ''session_id'') = Inr sid \<and> truthy sid \<and>
            format_params [] title authors = Inr params \<and>
            str_format env (request_url p) params = Inr url \<longrightarrow>
            identify env p title authors identifiers st =
              (log_error MsgNoQuery
                 (log_info (MsgFormattedUrl url)
                    (log_info (MsgInputs [] title authors)
                       (log_info (MsgSessionCreated sid)
                          (sent req (log_info MsgSessionStart (log_info MsgIdentifyStart st)))))),
               Inr ()))"
proof -
  have r: "session_request p = req" using assms(3) by (simp add: session_request_def)
  obtain st' x where cs: "create_session env p (log_info MsgIdentifyStart st) = (st', x)"
    by (cases "create_session env p (log_info MsgIdentifyStart st)")
  from create_session_frame [of env p "log_info MsgIdentifyStart st"] cs r assms(4)
  have fr: "result_queue st' = result_queue st" "requests st' = requests st @ [req]"
    by simp_all
  from assms(1) have i: "(case identifiers (u ''isbn'') of None \<Rightarrow> [] | Some i \<Rightarrow> i) = []"
    by auto
  from assms(2) have q: "query_of [] title = []"
    by (auto simp add: query_of_def title_text_def)
  have a: "requests (fst (identify env p title authors identifiers st)) = requests st @ [req] \<and>
           result_queue (fst (identify env p title authors identifiers st)) = result_queue st"
  proof (cases x)
    case (Inl e)
    with cs fr show ?thesis by (simp add: identify_def)
  next
    case (Inr sid)
    with cs fr identify_session_no_query [of identifiers title env p sid authors st', OF assms(1,2)]
    show ?thesis by (simp add: identify_def)
  qed
  have b: "\<forall>body session_data sid params url.
            http_post env req = Inr body \<and> json_loads env body = Inr session_data \<and>
            subscript session_data (u ''session_id'') = Inr sid \<and> truthy sid \<and>
            format_params [] title authors = Inr params \<and>
            str_format env (request_url p) params = Inr url \<longrightarrow>
            identify env p title authors identifiers st =
              (log_error MsgNoQuery
                 (log_info (MsgFormattedUrl url)
                    (log_info (MsgInputs [] title authors)
                       (log_info (MsgSessionCreated sid)
                          (sent req (log_info MsgSessionStart (log_info MsgIdentifyStart st)))))),
               Inr ())"
    using i q r assms(4)
    by (simp add: identify_def create_session_def session_try_def urlopen_def
        identify_session_def Let_def identify_query_empty)
  from a b show ?thesis by blast
qed

subsection \<open>Formatting the URL\<close>

lemma utf8_bytes: "utf8 c = Some bs \<Longrightarrow> list_all (\<lambda>b. b < 256) bs"
  by (auto simp add: utf8_def split: if_splits)

lemma hex_digit_safe: "n < 16 \<Longrightarrow> always_safe (hex_digit n)"
  by (simp add: hex_digit_def always_safe_def)

lemma quote_byte_chars: "b < 256 \<Longrightarrow> list_all url_char (quote_byte b)"
proof -
  assume "b < 256"
  then have "b div 16 < 16" and "b mod 16 < 16" by simp_all
  then show ?thesis
    by (simp add: quote_byte_def url_char_def hex_digit_safe)
qed

lemma quote_bytes_chars:
  "list_all (\<lambda>b. b < 256) bs \<Longrightarrow> list_all url_char (concat (map quote_byte bs))"
  by (induction bs) (simp_all add: quote_byte_chars)

lemma quote_chars: "quote s = Inr q \<Longrightarrow> list_all url_char q"
proof (induction s arbitrary: q)
  case Nil
  then show ?case by simp
next
  case (Cons c cs)
  then obtain bs rest where bs: "utf8 c = Some bs" and rest: "quote cs = Inr rest"
    and q: "q = concat (map quote_byte bs) @ rest"
    by (auto split: option.splits sum.splits)
  from Cons.IH [OF rest] quote_bytes_chars [OF utf8_bytes [OF bs]] q
  show ?case by simp
qed

lemma quote_if_set_chars: "quote_if_set s = Inr q \<Longrightarrow> list_all url_char q"
  by (auto simp add: quote_if_set_def quote_chars split: if_splits)

text \<open>
  C7, amended. Once the session exists, let \<open>qi\<close>, \<open>qt\<close> and \<open>qa\<close> be the ISBN, the
  title and the first author, each quoted on its own when set and empty when not. Each
  consists of safe characters and percent signs only. The template is formatted with
  exactly these three values under the names \<open>isbn\<close>, \<open>title\<close> and \<open>author\<close>, and the
  resulting URL is the one \<open>identify\<close> goes on with. If formatting raises \<open>KeyError\<close>
  (the template names a field outside the three), \<open>identify\<close> logs the error and
  returns: nothing is put on the queue, and no call beyond the session call is made.
\<close>

theorem C7_url_formatting:
  assumes "create_session env p (log_info MsgIdentifyStart st) = (st', Inr sid)"
      and "truthy sid"
      and "isbn = (case identifiers (u ''isbn'') of None \<Rightarrow> [] | Some i \<Rightarrow> i)"
      and "quote_if_set isbn = Inr qi"
      and "quote_if_set (title_text title) = Inr qt"
      and "quote_if_set (first_author authors) = Inr qa"
      and "params = [(u ''isbn'', qi), (u ''title'', qt), (u ''author'', qa)]"
  shows "list_all url_char qi \<and> list_all url_char qt \<and> list_all url_char qa \<and>
         (\<forall>url. str_format env (request_url p) params = Inr url \<longrightarrow>
            identify env p title authors identifiers st =
              identify_query env p sid (query_of isbn title) url
                (log_info (MsgFormattedUrl url) (log_info (MsgInputs isbn title authors) st'))) \<and>
         (\<forall>k. str_format env (request_url p) params = Inl (KeyError k) \<longrightarrow>
            identify env p title authors identifiers st =
              (log_error (MsgUrlFormatError (KeyError k))
                 (log_info (MsgInputs isbn title authors) st'), Inr ()) \<and>
            result_queue (fst (identify env p title authors identifiers st)) = result_queue st \<and>
            requests (fst (identify env p title authors identifiers st)) =
              requests st @ [session_request p])"
proof -
  from create_session_made_request [OF assms(1,2)]
    create_session_frame [of env p "log_info MsgIdentifyStart st"] assms(1)
  have fr: "result_queue st' = result_queue st" "requests st' = requests st @ [session_request p]"
    by simp_all
  have fp: "format_params isbn title authors = Inr params"
    using assms(4-7) by (simp add: format_params_def)
  have c: "list_all url_char qi \<and> list_all url_char qt \<and> list_all url_char qa"
    using assms(4-6) by (simp add: quote_if_set_chars)
  have a: "\<forall>url. str_format env (request_url p) params = Inr url \<longrightarrow>
            identify env p title authors identifiers st =
              identify_query env p sid (query_of isbn title) url
                (log_info (MsgFormattedUrl url) (log_info (MsgInputs isbn title authors) st'))"
    using assms(1-3) fp by (simp add: identify_def identify_session_def Let_def)
  have b: "\<forall>k. str_format env (request_url p) params = Inl (KeyError k) \<longrightarrow>
            identify env p title authors identifiers st =
              (log_error (MsgUrlFormatError (KeyError k))
                 (log_info (MsgInputs isbn title authors) st'), Inr ()) \<and>
            result_queue (fst (identify env p title authors identifiers st)) = result_queue st \<and>
            requests (fst (identify env p title authors identifiers st)) =
              requests st @ [session_request p]"
    using assms(1-3) fp fr by (simp add: identify_def identify_session_def Let_def)
  from a b c show ?thesis by blast
qed

subsection \<open>An empty retrieval\<close>

text \<open>
  C4. When the session exists, the URL is formatted, the query is not empty and
  \<open>retrieve_data\<close> returns the empty list, \<open>identify\<close> logs the retrieval failure and
  returns at once: the state is the one \<open>retrieve_data\<close> left plus that error line, no
  record is normalised and the queue is as it was.
\<close>

theorem C4_empty_result_is_failure:
  assumes "create_session env p (log_info MsgIdentifyStart st) = (st1, Inr sid)"
      and "truthy sid"
      and "isbn = (case identifiers (u ''isbn'') of None \<Rightarrow> [] | Some i \<Rightarrow> i)"
      and "format_params isbn title authors = Inr params"
      and "str_format env (request_url p) params = Inr url"
      and "query_of isbn title \<noteq> []"
      and "retrieve_data env p sid (query_of isbn title) identify_fields url
             (log_info (MsgUsingQuery (query_of isbn title))
                (log_info (MsgFormattedUrl url) (log_info (MsgInputs isbn title authors) st1)))
           = (st2, Inr (JList []))"
  shows "identify env p title authors identifiers st = (log_error MsgRetrieveFailed st2, Inr ()) \<and>
         result_queue st2 = result_queue st"
proof -
  from create_session_frame [of env p "log_info MsgIdentifyStart st"] assms(1)
  have fr: "result_queue st1 = result_queue st" by simp
  from retrieve_data_queue [of env p sid "query_of isbn title" identify_fields url
      "log_info (MsgUsingQuery (query_of isbn title))
         (log_info (MsgFormattedUrl url) (log_info (MsgInputs isbn title authors) st1))"] assms(7) fr
  have q: "result_queue st2 = result_queue st" by simp
  have "identify env p title authors identifiers st = (log_error MsgRetrieveFailed st2, Inr ())"
    using assms by (simp add: identify_def identify_session_def identify_query_def Let_def)
  with q show ?thesis by simp
qed

subsection \<open>The examples run\<close>

lemma example_quotes:
  "quote_if_set (u ''123'') = Inr (u ''123'')"
  "quote_if_set (u ''Go'') = Inr (u ''Go'')"
  "quote_if_set (u ''Jane Doe'') = Inr (u ''Jane%20Doe'')"
  "quote_if_set [] = Inr []"
  by (simp_all add: quote_if_set_def utf8_def quote_byte_def always_safe_def hex_digit_def)

lemma example_format:
  "str_format (example_env a b) (request_url example_prefs) example_params = Inr example_url"
  by (simp add: example_env_def example_prefs_def example_params_def example_url_def
      plain_format_def)

lemma unknown_field_format:
  "str_format (example_env a b) (request_url unknown_field_prefs) example_params =
     Inl (KeyError (JStr (u ''publisher'')))"
  by (simp add: example_env_def example_prefs_def unknown_field_prefs_def example_params_def
      plain_format_def)

lemma example_isbn:
  "u ''123'' = (case example_identifiers (u ''isbn'') of None \<Rightarrow> [] | Some i \<Rightarrow> i)"
  by (simp add: example_identifiers_def)

text \<open>
  C7, as stated, fails for a template with a positional field such as \<open>{0}\<close>: it is a
  placeholder outside \<open>{isbn}\<close>, \<open>{title}\<close>, \<open>{author}\<close>, but \<open>str.format\<close> finds no
  positional argument for it and raises \<open>IndexError\<close>, which \<open>except KeyError\<close> does not
  catch: \<open>identify\<close> raises instead of reporting and returning.
\<close>

theorem C7_positional_placeholder_raises:
  "snd (identify (example_env session_ok empty_result) positional_prefs (Some (u ''Go''))
         (Some [u ''Jane Doe'']) example_identifiers empty_state) = Inl IndexError"
proof -
  have c: "create_session (example_env session_ok empty_result) positional_prefs
             (log_info MsgIdentifyStart empty_state) =
     (log_info (MsgSessionCreated (JStr (u ''s1'')))
        (sent (session_request positional_prefs)
           (log_info MsgSessionStart (log_info MsgIdentifyStart empty_state))),
      Inr (JStr (u ''s1'')))"
    by (rule example_session_any) (simp add: positional_prefs_def)
  have fp: "format_params (u ''123'') (Some (u ''Go'')) (Some [u ''Jane Doe'']) = Inr example_params"
    using example_quotes
    by (simp add: format_params_def title_text_def first_author_def example_params_def)
  have f: "str_format (example_env session_ok empty_result) (request_url positional_prefs)
             example_params = Inl IndexError"
    by (simp add: example_env_def example_prefs_def positional_prefs_def example_params_def
        plain_format_def)
  from c fp f show ?thesis
    by (simp add: identify_def identify_session_def Let_def example_identifiers_def)
qed

theorem C7_witness:
  "str_format (example_env session_ok empty_result) (request_url example_prefs) example_params
     = Inr example_url \<and>
   list_all url_char (u ''Jane%20Doe'') \<and>
   identify (example_env session_ok empty_result) example_prefs (Some (u ''Go''))
       (Some [u ''Jane Doe'']) example_identifiers empty_state =
     identify_query (example_env session_ok empty_result) example_prefs (JStr (u ''s1''))
       (u ''123'') example_url
       (log_info (MsgFormattedUrl example_url)
          (log_info (MsgInputs (u ''123'') (Some (u ''Go'')) (Some [u ''Jane Doe'']))
             (log_info (MsgSessionCreated (JStr (u ''s1'')))
                (sent (session_request example_prefs)
                   (log_info MsgSessionStart (log_info MsgIdentifyStart empty_state)))))) \<and>
   str_format (example_env session_ok empty_result) (request_url unknown_field_prefs)
       example_params = Inl (KeyError (JStr (u ''publisher''))) \<and>
   snd (identify (example_env session_ok empty_result) unknown_field_prefs (Some (u ''Go''))
       (Some [u ''Jane Doe'']) example_identifiers empty_state) = Inr () \<and>
   result_queue (fst (identify (example_env session_ok empty_result) unknown_field_prefs
       (Some (u ''Go'')) (Some [u ''Jane Doe'']) example_identifiers empty_state)) = [] \<and>
   requests (fst (identify (example_env session_ok empty_result) unknown_field_prefs
       (Some (u ''Go'')) (Some [u ''Jane Doe'']) example_identifiers empty_state)) =
     [session_request unknown_field_prefs]"
proof -
  let ?env = "example_env session_ok empty_result"
  let ?title = "Some (u ''Go'')"
  let ?authors = "Some [u ''Jane Doe'']"
  have t: "truthy (JStr (u ''s1''))" by simp
  have qt: "quote_if_set (title_text ?title) = Inr (u ''Go'')"
    using example_quotes by (simp add: title_text_def)
  have qa: "quote_if_set (first_author ?authors) = Inr (u ''Jane%20Doe'')"
    using example_quotes by (simp add: first_author_def)
  have q: "query_of (u ''123'') ?title = u ''123''" by (simp add: query_of_def)
  have e: "result_queue empty_state = []" "requests empty_state = []"
    by (simp_all add: empty_state_def)
  have c1: "create_session ?env example_prefs (log_info MsgIdentifyStart empty_state) =
     (log_info (MsgSessionCreated (JStr (u ''s1'')))
        (sent (session_request example_prefs)
           (log_info MsgSessionStart (log_info MsgIdentifyStart empty_state))),
      Inr (JStr (u ''s1'')))"
    by (rule example_session_any) simp
  have c2: "create_session ?env unknown_field_prefs (log_info MsgIdentifyStart empty_state) =
     (log_info (MsgSessionCreated (JStr (u ''s1'')))
        (sent (session_request unknown_field_prefs)
           (log_info MsgSessionStart (log_info MsgIdentifyStart empty_state))),
      Inr (JStr (u ''s1'')))"
    by (rule example_session_any) (simp add: unknown_field_prefs_def)
  have q1: "quote_if_set (u ''123'') = Inr (u ''123'')" by (rule example_quotes(1))
  note one = C7_url_formatting [where identifiers = example_identifiers, OF c1 t example_isbn q1 qt qa example_params_def]
  note two = C7_url_formatting [where identifiers = example_identifiers, OF c2 t example_isbn q1 qt qa example_params_def]
  from one example_format [of session_ok empty_result] q
  have a: "list_all url_char (u ''Jane%20Doe'') \<and>
    identify ?env example_prefs ?title ?authors example_identifiers empty_state =
     identify_query ?env example_prefs (JStr (u ''s1'')) (u ''123'') example_url
       (log_info (MsgFormattedUrl example_url)
          (log_info (MsgInputs (u ''123'') ?title ?authors)
             (log_info (MsgSessionCreated (JStr (u ''s1'')))
                (sent (session_request example_prefs)
                   (log_info MsgSessionStart (log_info MsgIdentifyStart empty_state))))))"
    by simp
  from two unknown_field_format [of session_ok empty_result] e
  have b: "snd (identify ?env unknown_field_prefs ?title ?authors example_identifiers empty_state)
       = Inr () \<and>
     result_queue (fst (identify ?env unknown_field_prefs ?title ?authors example_identifiers
       empty_state)) = [] \<and>
     requests (fst (identify ?env unknown_field_prefs ?title ?authors example_identifiers
       empty_state)) = [session_request unknown_field_prefs]"
    by simp
  from a b example_format [of session_ok empty_result]
    unknown_field_format [of session_ok empty_result]
  show ?thesis by simp
qed

lemma example_retrieve_empty:
  "retrieve_data (example_env a empty_result) example_prefs sid q fs url st =
     (log_info (MsgRetrieved 0)
        (log_info (MsgRawResponse (JDict [(u ''result'', JList [])]))
           (sent (retrieve_request example_prefs sid q fs url (JList []))
              (log_info (MsgRetrieveStart url) st))),
      Inr (JList []))"
  by (simp add: retrieve_data_def parse_actions_def post_retrieve_def retrieve_try_def
      urlopen_def example_env_def scheme_request_def service_def retrieve_request_def
      example_prefs_def table_json empty_result_def dict_get_def Let_def)

theorem C4_witness:
  "truthy (JStr (u ''s1'')) \<and>
   format_params (u ''123'') (Some (u ''Go'')) (Some [u ''Jane Doe'']) = Inr example_params \<and>
   str_format (example_env session_ok empty_result) (request_url example_prefs) example_params
     = Inr example_url \<and>
   query_of (u ''123'') (Some (u ''Go'')) = u ''123'' \<and>
   snd (retrieve_data (example_env session_ok empty_result) example_prefs (JStr (u ''s1''))
          (u ''123'') identify_fields example_url empty_state) = Inr (JList []) \<and>
   snd (identify (example_env session_ok empty_result) example_prefs (Some (u ''Go''))
          (Some [u ''Jane Doe'']) example_identifiers empty_state) = Inr () \<and>
   result_queue (fst (identify (example_env session_ok empty_result) example_prefs
          (Some (u ''Go'')) (Some [u ''Jane Doe'']) example_identifiers empty_state)) = [] \<and>
   last (log_lines (fst (identify (example_env session_ok empty_result) example_prefs
          (Some (u ''Go'')) (Some [u ''Jane Doe'']) example_identifiers empty_state)))
     = (ERROR, MsgRetrieveFailed)"
proof -
  let ?env = "example_env session_ok empty_result"
  let ?title = "Some (u ''Go'')"
  let ?authors = "Some [u ''Jane Doe'']"
  have t: "truthy (JStr (u ''s1''))" by simp
  have fp: "format_params (u ''123'') ?title ?authors = Inr example_params"
    using example_quotes
    by (simp add: format_params_def title_text_def first_author_def example_params_def)
  have q: "query_of (u ''123'') ?title = u ''123''" by (simp add: query_of_def)
  have qn: "query_of (u ''123'') ?title \<noteq> []" by (simp add: query_of_def)
  have c1: "create_session ?env example_prefs (log_info MsgIdentifyStart empty_state) =
     (log_info (MsgSessionCreated (JStr (u ''s1'')))
        (sent (session_request example_prefs)
           (log_info MsgSessionStart (log_info MsgIdentifyStart empty_state))),
      Inr (JStr (u ''s1'')))"
    by (rule example_session_any) simp
  have fm: "str_format ?env (request_url example_prefs) example_params = Inr example_url"
    by (rule example_format)
  let ?st1 = "log_info (MsgSessionCreated (JStr (u ''s1'')))
        (sent (session_request example_prefs)
           (log_info MsgSessionStart (log_info MsgIdentifyStart empty_state)))"
  let ?st5 = "log_info (MsgUsingQuery (query_of (u ''123'') ?title))
                (log_info (MsgFormattedUrl example_url)
                   (log_info (MsgInputs (u ''123'') ?title ?authors) ?st1))"
  have rd: "retrieve_data ?env example_prefs (JStr (u ''s1'')) (query_of (u ''123'') ?title)
              identify_fields example_url ?st5 =
     (log_info (MsgRetrieved 0)
        (log_info (MsgRawResponse (JDict [(u ''result'', JList [])]))
           (sent (retrieve_request example_prefs (JStr (u ''s1'')) (query_of (u ''123'') ?title)
                    identify_fields example_url (JList []))
              (log_info (MsgRetrieveStart example_url) ?st5))),
      Inr (JList []))"
    by (rule example_retrieve_empty)
  have e: "result_queue empty_state = []" by (simp add: empty_state_def)
  from C4_empty_result_is_failure [where identifiers = example_identifiers, OF c1 t example_isbn fp fm qn rd] e
  have "snd (identify ?env example_prefs ?title ?authors example_identifiers empty_state) = Inr () \<and>
        result_queue (fst (identify ?env example_prefs ?title ?authors example_identifiers
          empty_state)) = [] \<and>
        last (log_lines (fst (identify ?env example_prefs ?title ?authors example_identifiers
          empty_state))) = (ERROR, MsgRetrieveFailed)"
    by simp
  with t fp q example_format [of session_ok empty_result]
    example_retrieve_empty [of session_ok "JStr (u ''s1'')" "u ''123''" identify_fields
      example_url empty_state]
  show ?thesis by simp
qed

theorem C10_witness:
  "(Map.empty :: ustr \<rightharpoonup> ustr) (u ''isbn'') = None \<and>
   make_request (example_env session_ok empty_result) (session_request example_prefs) = None \<and>
   http_post (example_env session_ok empty_result) (session_request example_prefs) = session_ok \<and>
   format_params [] None (Some [u ''Jane Doe'']) =
     Inr [(u ''isbn'', []), (u ''title'', []), (u ''author'', u ''Jane%20Doe'')] \<and>
   str_format (example_env session_ok empty_result) (request_url example_prefs)
     [(u ''isbn'', []), (u ''title'', []), (u ''author'', u ''Jane%20Doe'')] =
     Inr (u ''https://pdc.capub.cn/search.html#/quick?search=  Jane%20Doe'') \<and>
   identify (example_env session_ok empty_result) example_prefs None (Some [u ''Jane Doe''])
       Map.empty empty_state =
     (log_error MsgNoQuery
        (log_info (MsgFormattedUrl (u ''https://pdc.capub.cn/search.html#/quick?search=  Jane%20Doe''))
           (log_info (MsgInputs [] None (Some [u ''Jane Doe'']))
              (log_info (MsgSessionCreated (JStr (u ''s1'')))
                 (sent (session_request example_prefs)
                    (log_info MsgSessionStart (log_info MsgIdentifyStart empty_state)))))),
      Inr ()) \<and>
   requests (fst (identify (example_env session_ok empty_result) example_prefs None
       (Some [u ''Jane Doe'']) Map.empty empty_state)) = [session_request example_prefs] \<and>
   result_queue (fst (identify (example_env session_ok empty_result) example_prefs None
       (Some [u ''Jane Doe'']) Map.empty empty_state)) = []"
proof -
  let ?env = "example_env session_ok empty_result"
  let ?authors = "Some [u ''Jane Doe'']"
  let ?params = "[(u ''isbn'', []), (u ''title'', []), (u ''author'', u ''Jane%20Doe'')]"
  let ?url = "u ''https://pdc.capub.cn/search.html#/quick?search=  Jane%20Doe''"
  have h1: "(Map.empty :: ustr \<rightharpoonup> ustr) (u ''isbn'') = None \<or>
            (Map.empty :: ustr \<rightharpoonup> ustr) (u ''isbn'') = Some []" by simp
  have h2: "(None :: ustr option) = None \<or> (None :: ustr option) = Some []" by simp
  have r: "session_request example_prefs =
      \<lparr>req_url = api_base_url example_prefs @ u ''/create_session'',
       req_body = JDict [(u ''api_key'', JStr (api_key example_prefs))]\<rparr>"
    by (simp add: session_request_def)
  have m: "make_request ?env (session_request example_prefs) = None"
    by (rule example_make_request) simp
  have hp: "http_post ?env (session_request example_prefs) = session_ok"
    by (rule example_session_request) simp
  have hp': \<open>http_post ?env (session_request example_prefs) = Inr (u ''{"session_id": "s1"}'')\<close>
    using hp by (simp add: session_ok_def)
  have js: \<open>json_loads ?env (u ''{"session_id": "s1"}'') =
              Inr (JDict [(u ''session_id'', JStr (u ''s1''))])\<close>
    by (simp add: example_json_loads table_json)
  have sb: "subscript (JDict [(u ''session_id'', JStr (u ''s1''))]) (u ''session_id'') =
              Inr (JStr (u ''s1''))"
    by simp
  have t: "truthy (JStr (u ''s1''))" by simp
  have fp: "format_params [] None ?authors = Inr ?params"
    using example_quotes by (simp add: format_params_def title_text_def first_author_def)
  have fm: "str_format ?env (request_url example_prefs) ?params = Inr ?url"
    by (simp add: example_env_def example_prefs_def plain_format_def)
  have e: "result_queue empty_state = []" "requests empty_state = []"
    by (simp_all add: empty_state_def)
  note main = C10_session_before_input_check [where identifiers = Map.empty and title = None
      and authors = ?authors and st = empty_state, OF h1 h2 r m]
  from main have rq: "requests (fst (identify ?env example_prefs None ?authors Map.empty
      empty_state)) = requests empty_state @ [session_request example_prefs]"
    and qq: "result_queue (fst (identify ?env example_prefs None ?authors Map.empty
      empty_state)) = result_queue empty_state"
    by blast+
  from main hp' js sb t fp fm
  have i: "identify ?env example_prefs None ?authors Map.empty empty_state =
     (log_error MsgNoQuery (log_info (MsgFormattedUrl ?url)
        (log_info (MsgInputs [] None ?authors)
           (log_info (MsgSessionCreated (JStr (u ''s1'')))
              (sent (session_request example_prefs)
                 (log_info MsgSessionStart (log_info MsgIdentifyStart empty_state)))))), Inr ())"
    by blast
  from rq qq i e m hp fp fm show ?thesis by simp
qed

theorem C9_witness:
  "json_loads (example_env session_ok empty_result) (actions broken_actions_prefs)
     = Inl JSONDecodeError \<and>
   make_request (example_env session_ok empty_result)
     (retrieve_request broken_actions_prefs (JStr (u ''s1'')) (u ''Go'') identify_fields
        (u ''https://x/'') (JList [])) = None \<and>
   requests (fst (retrieve_data (example_env session_ok empty_result) broken_actions_prefs
       (JStr (u ''s1'')) (u ''Go'') identify_fields (u ''https://x/'') empty_state)) =
     [retrieve_request broken_actions_prefs (JStr (u ''s1'')) (u ''Go'') identify_fields
        (u ''https://x/'') (JList [])] \<and>
   retrieve_data (example_env session_ok empty_result) broken_actions_prefs
       (JStr (u ''s1'')) (u ''Go'') identify_fields (u ''https://x/'') empty_state =
     (log_info (MsgRetrieved 0)
        (log_info (MsgRawResponse (JDict [(u ''result'', JList [])]))
           (sent (retrieve_request broken_actions_prefs (JStr (u ''s1'')) (u ''Go'')
                    identify_fields (u ''https://x/'') (JList []))
              (log_warn MsgActionsParseFailed
                 (log_info (MsgRetrieveStart (u ''https://x/'')) empty_state)))),
      Inr (JList [])) \<and>
   retrieve_data (example_env session_ok (Inl URLError)) broken_actions_prefs
       (JStr (u ''s1'')) (u ''Go'') identify_fields (u ''https://x/'') empty_state =
     (log_error (MsgRetrieveHttpError URLError)
        (sent (retrieve_request broken_actions_prefs (JStr (u ''s1'')) (u ''Go'')
                 identify_fields (u ''https://x/'') (JList []))
           (log_warn MsgActionsParseFailed
              (log_info (MsgRetrieveStart (u ''https://x/'')) empty_state))),
      Inr JNull)"
proof -
  let ?env = "example_env session_ok empty_result"
  let ?env' = "example_env session_ok (Inl URLError)"
  let ?req = "retrieve_request broken_actions_prefs (JStr (u ''s1'')) (u ''Go'') identify_fields
        (u ''https://x/'') (JList [])"
  let ?st1 = "sent ?req (log_warn MsgActionsParseFailed
                 (log_info (MsgRetrieveStart (u ''https://x/'')) empty_state))"
  have h: "json_loads ?env (actions broken_actions_prefs) = Inl JSONDecodeError"
    by (simp add: example_json_loads broken_actions_prefs_def example_prefs_def table_json)
  have h': "json_loads ?env' (actions broken_actions_prefs) = Inl JSONDecodeError"
    by (simp add: example_json_loads broken_actions_prefs_def example_prefs_def table_json)
  have r: "?req = \<lparr>req_url = api_base_url broken_actions_prefs @ u ''/retrieve'',
      req_body = JDict
        [(u ''cmd'', JStr (if cmd broken_actions_prefs \<noteq> [] then cmd broken_actions_prefs
                           else u ''Go'')),
         (u ''url'', JStr (u ''https://x/'')),
         (u ''fields'', JList (map JStr identify_fields)),
         (u ''session_id'', JStr (u ''s1'')),
         (u ''scroll_to_bottom'', JBool (scroll_to_bottom broken_actions_prefs)),
         (u ''max_items'', JInt (max_items broken_actions_prefs)),
         (u ''local'', JBool True),
         (u ''actions'', JList [])]\<rparr>"
    by (simp add: retrieve_request_def)
  have m: "make_request ?env ?req = None"
    by (simp add: example_env_def scheme_request_def retrieve_request_def
        broken_actions_prefs_def example_prefs_def)
  have m': "make_request ?env' ?req = None"
    by (simp add: example_env_def scheme_request_def retrieve_request_def
        broken_actions_prefs_def example_prefs_def)
  have hp: \<open>http_post ?env ?req = Inr (u ''{"result": []}'')\<close>
    by (simp add: example_env_def service_def retrieve_request_def broken_actions_prefs_def
        example_prefs_def empty_result_def)
  have hp': "http_post ?env' ?req = Inl URLError"
    by (simp add: example_env_def service_def retrieve_request_def broken_actions_prefs_def
        example_prefs_def)
  have js: \<open>json_loads ?env (u ''{"result": []}'') = Inr (JDict [(u ''result'', JList [])])\<close>
    by (simp add: example_json_loads table_json)
  have ln: "py_len (dict_get [(u ''result'', JList [])] (u ''result'') (JList [])) = Inr 0"
    by (simp add: dict_get_def)
  have dg: "dict_get [(u ''result'', JList [])] (u ''result'') (JList []) = JList []"
    by (simp add: dict_get_def)
  have e: "requests empty_state = []" by (simp add: empty_state_def)
  note one = C9_actions_parse_failure_not_fatal [OF h r m refl, of empty_state]
  note two = C9_actions_parse_failure_not_fatal [OF h' r m' refl, of empty_state]
  from one have a: "requests (fst (retrieve_data ?env broken_actions_prefs
       (JStr (u ''s1'')) (u ''Go'') identify_fields (u ''https://x/'') empty_state)) =
     requests empty_state @ [?req]"
    by blast
  from one hp js ln
  have b: "retrieve_data ?env broken_actions_prefs (JStr (u ''s1'')) (u ''Go'') identify_fields
       (u ''https://x/'') empty_state =
     (log_info (MsgRetrieved 0) (log_info (MsgRawResponse (JDict [(u ''result'', JList [])])) ?st1),
      Inr (dict_get [(u ''result'', JList [])] (u ''result'') (JList [])))"
    by blast
  from two hp'
  have c: "retrieve_data ?env' broken_actions_prefs (JStr (u ''s1'')) (u ''Go'') identify_fields
       (u ''https://x/'') empty_state =
     (log_error (MsgRetrieveHttpError URLError) ?st1, Inr JNull)"
    by auto
  from a b c h m e dg show ?thesis by simp
qed

end
